theory Spec2Isabelle
  imports Main "HOL-Library.Word"
begin

unbundle bit_operations_syntax

section \<open>Go strings and the library functions the handlers call\<close>

text \<open>
  A Go string is a sequence of bytes, and \<open>len\<close> counts bytes. Isabelle's \<open>string\<close> is
  a list of 8-bit characters, so a Go string is a \<open>string\<close> and \<open>len\<close> is \<open>length\<close>.
  Text is UTF-8: the functions of package \<open>strings\<close> that \<open>makeChannel\<close> calls decode
  it into code points (runes) where they meet a byte outside ASCII.
\<close>

definition byte :: "char \<Rightarrow> nat" where
  "byte c = of_char c"

definition RuneSelf :: nat where
  "RuneSelf = 0x80"

definition RuneError :: nat where
  "RuneError = 0xFFFD"

definition MaxRune :: nat where
  "MaxRune = 0x10FFFF"

definition cont :: "char \<Rightarrow> bool" where
  "cont c \<longleftrightarrow> 0x80 \<le> byte c \<and> byte c \<le> 0xBF"

text \<open>
  \<open>utf8.DecodeRuneInString\<close>: the first code point of the string and its width in bytes.
  A byte that starts no well-formed sequence decodes to \<open>RuneError\<close> with width 1. The
  second byte of a sequence has a narrower range after the lead bytes E0, ED, F0 and F4
  (no overlong form, no surrogate, nothing above \<open>MaxRune\<close>).
\<close>

definition second_lo :: "nat \<Rightarrow> nat" where
  "second_lo b0 = (if b0 = 0xE0 then 0xA0 else if b0 = 0xF0 then 0x90 else 0x80)"

definition second_hi :: "nat \<Rightarrow> nat" where
  "second_hi b0 = (if b0 = 0xED then 0x9F else if b0 = 0xF4 then 0x8F else 0xBF)"

fun DecodeRuneInString :: "string \<Rightarrow> nat \<times> nat" where
  "DecodeRuneInString [] = (RuneError, 0)"
| "DecodeRuneInString (c0 # cs) =
     (let b0 = byte c0 in
      if b0 < RuneSelf then (b0, 1)
      else if 0xC2 \<le> b0 \<and> b0 \<le> 0xDF then
        (case cs of
           c1 # _ \<Rightarrow>
             if cont c1 then ((b0 - 0xC0) * 64 + (byte c1 - 0x80), 2) else (RuneError, 1)
         | _ \<Rightarrow> (RuneError, 1))
      else if 0xE0 \<le> b0 \<and> b0 \<le> 0xEF then
        (case cs of
           c1 # c2 # _ \<Rightarrow>
             if second_lo b0 \<le> byte c1 \<and> byte c1 \<le> second_hi b0 \<and> cont c2
             then ((b0 - 0xE0) * 4096 + (byte c1 - 0x80) * 64 + (byte c2 - 0x80), 3)
             else (RuneError, 1)
         | _ \<Rightarrow> (RuneError, 1))
      else if 0xF0 \<le> b0 \<and> b0 \<le> 0xF4 then
        (case cs of
           c1 # c2 # c3 # _ \<Rightarrow>
             if second_lo b0 \<le> byte c1 \<and> byte c1 \<le> second_hi b0 \<and> cont c2 \<and> cont c3
             then ((b0 - 0xF0) * 262144 + (byte c1 - 0x80) * 4096
                   + (byte c2 - 0x80) * 64 + (byte c3 - 0x80), 4)
             else (RuneError, 1)
         | _ \<Rightarrow> (RuneError, 1))
      else (RuneError, 1))"

text \<open>
  \<open>utf8.AppendRune\<close>: the UTF-8 encoding of a code point. A surrogate and a value above
  \<open>MaxRune\<close> are written as \<open>RuneError\<close>.
\<close>

definition EncodeRune :: "nat \<Rightarrow> string" where
  "EncodeRune r =
     (if r < 0x80 then [char_of r]
      else if r < 0x800 then [char_of (0xC0 + r div 64), char_of (0x80 + r mod 64)]
      else if MaxRune < r \<or> (0xD800 \<le> r \<and> r \<le> 0xDFFF) then
        [char_of (0xEF :: nat), char_of (0xBF :: nat), char_of (0xBD :: nat)]
      else if r < 0x10000 then
        [char_of (0xE0 + r div 4096), char_of (0x80 + (r div 64) mod 64),
         char_of (0x80 + r mod 64)]
      else
        [char_of (0xF0 + r div 262144), char_of (0x80 + (r div 4096) mod 64),
         char_of (0x80 + (r div 64) mod 64), char_of (0x80 + r mod 64)])"

text \<open>
  The string as Go's \<open>range\<close> loop reads it: each code point with the bytes it was
  decoded from.
\<close>

fun runes :: "string \<Rightarrow> (nat \<times> string) list" where
  "runes [] = []"
| "runes (c # cs) =
     (let w = snd (DecodeRuneInString (c # cs)) in
      (fst (DecodeRuneInString (c # cs)), c # take (w - 1) cs) # runes (drop (w - 1) cs))"

text \<open>
  \<open>unicode.IsSpace\<close>: the code points with Unicode's White_Space property.
\<close>

definition IsSpace :: "nat \<Rightarrow> bool" where
  "IsSpace r \<longleftrightarrow>
     r \<in> {0x09, 0x0A, 0x0B, 0x0C, 0x0D, 0x20, 0x85, 0xA0, 0x1680, 0x2028, 0x2029,
           0x202F, 0x205F, 0x3000}
     \<or> (0x2000 \<le> r \<and> r \<le> 0x200A)"

text \<open>
  \<open>strings.TrimSpace\<close>: the string without its leading and trailing white space, as
  defined by Unicode.
\<close>

definition TrimSpace :: "string \<Rightarrow> string" where
  "TrimSpace s =
     concat (map snd
       (rev (dropWhile (\<lambda>p. IsSpace (fst p)) (rev (dropWhile (\<lambda>p. IsSpace (fst p)) (runes s))))))"

text \<open>
  \<open>unicode.ToLower\<close> maps the ASCII capitals itself and looks every other code point up
  in the case tables of package \<open>unicode\<close>. The tables are not part of this program: the
  lookup is the parameter \<open>caseTable\<close>.
\<close>

definition unicodeToLower :: "(nat \<Rightarrow> nat) \<Rightarrow> nat \<Rightarrow> nat" where
  "unicodeToLower caseTable r =
     (if r < RuneSelf then (if 0x41 \<le> r \<and> r \<le> 0x5A then r + 0x20 else r)
      else caseTable r)"

text \<open>
  \<open>strings.Map\<close>: every code point mapped and encoded again; a byte that is not
  well-formed UTF-8 is read as \<open>RuneError\<close>.
\<close>

definition Map_string :: "(nat \<Rightarrow> nat) \<Rightarrow> string \<Rightarrow> string" where
  "Map_string mapping s = concat (map (\<lambda>p. EncodeRune (mapping (fst p))) (runes s))"

text \<open>
  \<open>strings.ToLower\<close>: a string of ASCII bytes is lower-cased byte by byte, any other
  string through \<open>strings.Map\<close>.
\<close>

definition ToLower :: "(nat \<Rightarrow> nat) \<Rightarrow> string \<Rightarrow> string" where
  "ToLower caseTable s =
     (if list_all (\<lambda>c. byte c < RuneSelf) s
      then map (\<lambda>c. if 0x41 \<le> byte c \<and> byte c \<le> 0x5A then char_of (byte c + 0x20) else c) s
      else Map_string (unicodeToLower caseTable) s)"

text \<open>
  \<open>strings.ReplaceAll\<close> with a pattern of one byte: every occurrence of the byte is
  replaced.
\<close>

definition ReplaceAll :: "string \<Rightarrow> char \<Rightarrow> char \<Rightarrow> string" where
  "ReplaceAll s old new = map (\<lambda>c. if c = old then new else c) s"

text \<open>
  \<open>utf8.RuneCountInString\<close>: the number of characters (code points) of a string, as
  opposed to \<open>length\<close>, the number of its bytes.
\<close>

definition RuneCountInString :: "string \<Rightarrow> nat" where
  "RuneCountInString s = length (runes s)"

section \<open>The data of an interaction\<close>

text \<open>
  The structs of the chat library, with the fields \<open>main.go\<close> reads or writes. An
  identifier (guild, channel, role, user) is a string, compared by equality. An error
  value is its text (\<open>err.Error()\<close>); \<open>nil\<close> is \<open>None\<close>.
\<close>

type_synonym error = string

datatype ApplicationCommandOptionType =
    ApplicationCommandOptionSubCommand
  | ApplicationCommandOptionSubCommandGroup
  | ApplicationCommandOptionString
  | ApplicationCommandOptionInteger
  | ApplicationCommandOptionBoolean
  | ApplicationCommandOptionUser
  | ApplicationCommandOptionChannel
  | ApplicationCommandOptionRole
  | ApplicationCommandOptionMentionable
  | ApplicationCommandOptionNumber
  | ApplicationCommandOptionAttachment

record ApplicationCommandInteractionDataOption =
  OptionName :: string
  OptionType :: ApplicationCommandOptionType
  OptionValue :: string

record ApplicationCommandInteractionData =
  Name :: string
  Options :: "ApplicationCommandInteractionDataOption list"

record Member =
  Roles :: "string list"

record User =
  UserID :: string

record Channel =
  ChannelID' :: string
  ChannelName :: string

text \<open>
  \<open>InteractionCreate\<close>: an invocation of a slash command. \<open>Member\<close> is a pointer in
  the source and may be \<open>nil\<close>.
\<close>

record InteractionCreate =
  GuildID :: string
  ChannelID :: string
  Member :: "Member option"
  ApplicationCommandData :: ApplicationCommandInteractionData

datatype InteractionResponseType =
    InteractionResponsePong
  | InteractionResponseChannelMessageWithSource
  | InteractionResponseDeferredChannelMessageWithSource
  | InteractionResponseDeferredMessageUpdate
  | InteractionResponseUpdateMessage

record InteractionResponseData =
  Content :: string
  Flags :: nat

record InteractionResponse =
  Type :: InteractionResponseType
  Data :: InteractionResponseData

definition MessageFlagsEphemeral :: nat where
  "MessageFlagsEphemeral = 2 ^ 6"

datatype PermissionOverwriteType = PermissionOverwriteTypeRole | PermissionOverwriteTypeMember

datatype ChannelType =
    ChannelTypeGuildText
  | ChannelTypeDM
  | ChannelTypeGuildVoice
  | ChannelTypeGroupDM
  | ChannelTypeGuildCategory

definition PermissionViewChannel :: "64 word" where
  "PermissionViewChannel = 0x400"

definition PermissionSendMessages :: "64 word" where
  "PermissionSendMessages = 0x800"

definition JuiceworksGuildId :: string where
  "JuiceworksGuildId = ''1256628364987600977''"

definition InternalChannelId :: string where
  "InternalChannelId = ''1256628365771669556''"

definition JuiceworksRoleId :: string where
  "JuiceworksRoleId = ''1257752490372370503''"

definition ProjectCreatorRoleId :: string where
  "ProjectCreatorRoleId = ''1259262543034060830''"

definition ServicesRoleId :: string where
  "ServicesRoleId = ''1260738526425780264''"

section \<open>The platform and the trace of a handler\<close>

text \<open>
  Everything a handler does to the outside is recorded, in order, in a trace: each call
  of the session with its arguments and the result the platform gave, and each line
  written with \<open>log.Printf\<close> (the format and its arguments). \<open>EvGuildMemberRoleRemove\<close>
  is the call that would take a role back; the session offers it and \<open>main.go\<close> never
  calls it.
\<close>

datatype logarg = ArgErr error | ArgStr string | ArgUser User | ArgChannel Channel

datatype event =
    EvInteractionRespond InteractionCreate InteractionResponse "error option"
  | EvGuildMember string string "error + Member"
  | EvGuildMemberRoleAdd string string string "error option"
  | EvGuildMemberRoleRemove string string string "error option"
  | EvGuildChannelCreate string string ChannelType "error + Channel"
  | EvChannelPermissionSet string string PermissionOverwriteType "64 word" "64 word" "error option"
  | EvLogPrintf string "logarg list"

type_synonym trace = "event list"

text \<open>
  The session: what the platform answers to each call. The answer may depend on
  everything that happened before (the trace so far) and on the arguments, so any
  platform behaviour is a value of this record: a second response to an interaction
  may fail where the first succeeded.
\<close>

record Session =
  InteractionRespond :: "trace \<Rightarrow> InteractionCreate \<Rightarrow> InteractionResponse \<Rightarrow> error option"
  GuildMember :: "trace \<Rightarrow> string \<Rightarrow> string \<Rightarrow> error + Member"
  GuildMemberRoleAdd :: "trace \<Rightarrow> string \<Rightarrow> string \<Rightarrow> string \<Rightarrow> error option"
  GuildChannelCreate :: "trace \<Rightarrow> string \<Rightarrow> string \<Rightarrow> ChannelType \<Rightarrow> error + Channel"
  ChannelPermissionSet ::
    "trace \<Rightarrow> string \<Rightarrow> string \<Rightarrow> PermissionOverwriteType \<Rightarrow> 64 word \<Rightarrow> 64 word \<Rightarrow> error option"

definition call_InteractionRespond ::
  "Session \<Rightarrow> InteractionCreate \<Rightarrow> InteractionResponse \<Rightarrow> trace \<Rightarrow> error option \<times> trace" where
  "call_InteractionRespond s i r tr =
     (let err = InteractionRespond s tr i r in (err, tr @ [EvInteractionRespond i r err]))"

definition call_GuildMember ::
  "Session \<Rightarrow> string \<Rightarrow> string \<Rightarrow> trace \<Rightarrow> (error + Member) \<times> trace" where
  "call_GuildMember s guildID userID tr =
     (let res = GuildMember s tr guildID userID in (res, tr @ [EvGuildMember guildID userID res]))"

definition call_GuildMemberRoleAdd ::
  "Session \<Rightarrow> string \<Rightarrow> string \<Rightarrow> string \<Rightarrow> trace \<Rightarrow> error option \<times> trace" where
  "call_GuildMemberRoleAdd s guildID userID roleID tr =
     (let err = GuildMemberRoleAdd s tr guildID userID roleID
      in (err, tr @ [EvGuildMemberRoleAdd guildID userID roleID err]))"

definition call_GuildChannelCreate ::
  "Session \<Rightarrow> string \<Rightarrow> string \<Rightarrow> ChannelType \<Rightarrow> trace \<Rightarrow> (error + Channel) \<times> trace" where
  "call_GuildChannelCreate s guildID name ctype tr =
     (let res = GuildChannelCreate s tr guildID name ctype
      in (res, tr @ [EvGuildChannelCreate guildID name ctype res]))"

definition call_ChannelPermissionSet ::
  "Session \<Rightarrow> string \<Rightarrow> string \<Rightarrow> PermissionOverwriteType \<Rightarrow> 64 word \<Rightarrow> 64 word \<Rightarrow> trace
     \<Rightarrow> error option \<times> trace" where
  "call_ChannelPermissionSet s channelID targetID targetType allow deny tr =
     (let err = ChannelPermissionSet s tr channelID targetID targetType allow deny
      in (err, tr @ [EvChannelPermissionSet channelID targetID targetType allow deny err]))"

section \<open>The handlers of \<open>main.go\<close>\<close>

text \<open>
  Every response of \<open>main.go\<close> is the same literal but for its content: a channel
  message with source, flagged ephemeral.
\<close>

definition ephemeral :: "string \<Rightarrow> InteractionResponse" where
  "ephemeral c =
     \<lparr>Type = InteractionResponseChannelMessageWithSource,
      Data = \<lparr>Content = c, Flags = MessageFlagsEphemeral\<rparr>\<rparr>"

text \<open>\<open>logResponseErr\<close>: a failed response is logged, nothing else.\<close>

definition logResponseErr :: "error option \<Rightarrow> trace \<Rightarrow> trace" where
  "logResponseErr err tr =
     (case err of
        Some e \<Rightarrow> tr @ [EvLogPrintf ''Error responding to interaction: %v'' [ArgErr e]]
      | None \<Rightarrow> tr)"

text \<open>
  The statement \<open>logResponseErr(s.InteractionRespond(i.Interaction, ...))\<close>, which the
  source writes at every response.
\<close>

definition respond :: "Session \<Rightarrow> InteractionCreate \<Rightarrow> string \<Rightarrow> trace \<Rightarrow> trace" where
  "respond s i c tr =
     (case call_InteractionRespond s i (ephemeral c) tr of (err, tr') \<Rightarrow> logResponseErr err tr')"

text \<open>
  The loop \<open>for _, role := range roles { if role == id { found = true; break } }\<close> of
  \<open>checkCommandCaller\<close> and \<open>addMember\<close>.
\<close>

fun hasRole :: "string \<Rightarrow> string list \<Rightarrow> bool" where
  "hasRole roleID [] = False"
| "hasRole roleID (role # roles) = (if role = roleID then True else hasRole roleID roles)"

definition checkCommandCaller :: "Session \<Rightarrow> InteractionCreate \<Rightarrow> trace \<Rightarrow> error option \<times> trace" where
  "checkCommandCaller s i tr =
     (if GuildID i \<noteq> JuiceworksGuildId \<or> Member i = None then
        (Some ''command was called outside of the Juiceworks Discord server'',
         respond s i ''This command can only be used in the Juiceworks Discord server.'' tr)
      else
        let callerHasJuiceworksRole = hasRole JuiceworksRoleId (Roles (the (Member i))) in
        if \<not> callerHasJuiceworksRole then
          (Some ''command was called by a non-Juiceworks member'',
           respond s i ''This command can only be used by Juiceworks members.'' tr)
        else (None, tr))"

text \<open>
  The struct \<open>channelPermissionSetup\<close>; its field \<open>s\<close> is \<open>session\<close> here.
\<close>

record channelPermissionSetup =
  session :: Session
  channelID :: string
  targetID :: string
  targetType :: PermissionOverwriteType
  allow :: "64 word"
  deny :: "64 word"
  interaction :: InteractionCreate

definition channelPermissions :: "channelPermissionSetup \<Rightarrow> trace \<Rightarrow> error option \<times> trace" where
  "channelPermissions cps tr =
     (case call_ChannelPermissionSet (session cps) (channelID cps) (targetID cps) (targetType cps)
             (allow cps) (deny cps) tr of
        (Some err, tr1) \<Rightarrow>
          (Some err,
           respond (session cps) (interaction cps) (''Error setting channel permissions: '' @ err) tr1
             @ [EvLogPrintf ''Error setting channel permissions: %v'' [ArgErr err]])
      | (None, tr1) \<Rightarrow> (None, tr1))"

text \<open>
  The option accessors of the library. Both panic on an option of another type; the
  handlers call them after the check of the type. \<open>UserValue\<close> gives the user the
  option names: the library asks the session for the user and falls back to a user with
  the identifier alone, and the identifier is all the handler's calls and its response
  depend on. \<open>Mention\<close> is the form \<open><@id>\<close>.
\<close>

definition StringValue :: "ApplicationCommandInteractionDataOption \<Rightarrow> string" where
  "StringValue opt = OptionValue opt"

definition UserValue :: "ApplicationCommandInteractionDataOption \<Rightarrow> User" where
  "UserValue opt = \<lparr>UserID = OptionValue opt\<rparr>"

definition Mention :: "User \<Rightarrow> string" where
  "Mention u = ''<@'' @ UserID u @ ''>''"

text \<open>\<open>addMember\<close>: the trace of one run of the handler.\<close>

definition addMember :: "Session \<Rightarrow> InteractionCreate \<Rightarrow> trace" where
  "addMember s i =
     (case checkCommandCaller s i [] of
        (Some err, tr1) \<Rightarrow>
          tr1 @ [EvLogPrintf ''Command caller check failed on addMember: %v'' [ArgErr err]]
      | (None, tr1) \<Rightarrow>
          if ChannelID i = InternalChannelId then
            respond s i ''This command cannot be used in the internal channel.'' tr1
          else
            let options = Options (ApplicationCommandData i) in
            if length options = 0 \<or> OptionType (options ! 0) \<noteq> ApplicationCommandOptionUser then
              respond s i ''This command requires a user.'' tr1
            else
              let user = UserValue (options ! 0) in
              (case call_GuildMember s JuiceworksGuildId (UserID user) tr1 of
                 (Inl err, tr2) \<Rightarrow>
                   respond s i (''Error reading member roles: '' @ err)
                     (tr2 @ [EvLogPrintf ''Error reading member roles: %v'' [ArgErr err]])
               | (Inr member, tr2) \<Rightarrow>
                   let isServiceProvider = hasRole ServicesRoleId (Roles member);
                       addToChannel = (\<lambda>tr3.
                         case channelPermissions
                                \<lparr>session = s, channelID = ChannelID i, targetID = UserID user,
                                 targetType = PermissionOverwriteTypeMember,
                                 allow = PermissionViewChannel OR PermissionSendMessages,
                                 deny = 0, interaction = i\<rparr> tr3 of
                           (Some err, tr4) \<Rightarrow>
                             respond s i (''Error adding member to channel: '' @ err)
                               (tr4 @ [EvLogPrintf ''Error adding member to channel: %v'' [ArgErr err]])
                         | (None, tr4) \<Rightarrow>
                             respond s i (''Added '' @ Mention user @ '' to the channel.'')
                               (tr4 @ [EvLogPrintf ''Added %s (%s) to channel %s.''
                                         [ArgUser user, ArgStr (Mention user), ArgStr (ChannelID i)]]))
                   in
                   if \<not> isServiceProvider then
                     (case call_GuildMemberRoleAdd s JuiceworksGuildId (UserID user)
                             ProjectCreatorRoleId tr2 of
                        (Some err, tr3) \<Rightarrow>
                          respond s i (''Error granting Project Creator role: '' @ err)
                            (tr3 @ [EvLogPrintf ''Error granting Project Creator role: %v'' [ArgErr err]])
                      | (None, tr3) \<Rightarrow> addToChannel tr3)
                   else addToChannel tr2))"

text \<open>
  The loop of \<open>makeChannel\<close> over \<open>permissionsToSet\<close>: it stops at the first
  overwrite that fails.
\<close>

fun setPermissions :: "channelPermissionSetup list \<Rightarrow> trace \<Rightarrow> error option \<times> trace" where
  "setPermissions [] tr = (None, tr)"
| "setPermissions (p # ps) tr =
     (case channelPermissions p tr of
        (Some err, tr') \<Rightarrow> (Some err, tr')
      | (None, tr') \<Rightarrow> setPermissions ps tr')"

text \<open>The three steps that clean up the channel name, in the order of the source.\<close>

definition normalizeName :: "(nat \<Rightarrow> nat) \<Rightarrow> string \<Rightarrow> string" where
  "normalizeName caseTable name =
     (let channelName = TrimSpace name;
          channelName = ToLower caseTable channelName;
          channelName = ReplaceAll channelName CHR '' '' CHR ''-''
      in channelName)"

text \<open>\<open>makeChannel\<close>: the trace of one run of the handler.\<close>

definition makeChannel :: "(nat \<Rightarrow> nat) \<Rightarrow> Session \<Rightarrow> InteractionCreate \<Rightarrow> trace" where
  "makeChannel caseTable s i =
     (case checkCommandCaller s i [] of
        (Some err, tr1) \<Rightarrow>
          tr1 @ [EvLogPrintf ''Command caller check failed on makeChannel: %v'' [ArgErr err]]
      | (None, tr1) \<Rightarrow>
          let options = Options (ApplicationCommandData i) in
          if length options = 0 \<or> OptionType (options ! 0) \<noteq> ApplicationCommandOptionString then
            respond s i ''This command requires a channel name.'' tr1
          else
            let channelName = normalizeName caseTable (StringValue (options ! 0)) in
            if length channelName < 2 \<or> length channelName > 100 then
              respond s i ''Channel name must be between 2 and 100 characters.'' tr1
            else
              (case call_GuildChannelCreate s JuiceworksGuildId channelName ChannelTypeGuildText tr1 of
                 (Inl err, tr2) \<Rightarrow> respond s i (''Error creating channel: '' @ err) tr2
               | (Inr channel, tr2) \<Rightarrow>
                   let permissionsToSet =
                         [\<lparr>session = s, channelID = ChannelID' channel, targetID = JuiceworksRoleId,
                           targetType = PermissionOverwriteTypeRole,
                           allow = PermissionViewChannel OR PermissionSendMessages,
                           deny = 0, interaction = i\<rparr>,
                          \<lparr>session = s, channelID = ChannelID' channel, targetID = JuiceworksGuildId,
                           targetType = PermissionOverwriteTypeRole,
                           allow = 0, deny = PermissionViewChannel, interaction = i\<rparr>]
                   in
                   (case setPermissions permissionsToSet tr2 of
                      (Some err, tr3) \<Rightarrow> tr3
                    | (None, tr3) \<Rightarrow>
                        respond s i (''Created channel: #'' @ ChannelName channel)
                          (tr3 @ [EvLogPrintf ''Created channel: %v'' [ArgChannel channel]]))))"

text \<open>
  The table \<open>commandHandlers\<close> and the function \<open>main\<close> registers for every
  interaction: the handler of the command's name runs, if there is one.
\<close>

definition commandHandlers ::
  "(nat \<Rightarrow> nat) \<Rightarrow> string \<rightharpoonup> (Session \<Rightarrow> InteractionCreate \<Rightarrow> trace)" where
  "commandHandlers caseTable =
     [''make-channel'' \<mapsto> makeChannel caseTable, ''add-member'' \<mapsto> addMember]"

definition dispatch :: "(nat \<Rightarrow> nat) \<Rightarrow> Session \<Rightarrow> InteractionCreate \<Rightarrow> trace" where
  "dispatch caseTable s i =
     (case commandHandlers caseTable (Name (ApplicationCommandData i)) of
        Some h \<Rightarrow> h s i
      | None \<Rightarrow> [])"

section \<open>Reading a trace\<close>

fun responses :: "InteractionCreate \<Rightarrow> trace \<Rightarrow> InteractionResponse list" where
  "responses i [] = []"
| "responses i (EvInteractionRespond j r err # tr) =
     (if j = i then r # responses i tr else responses i tr)"
| "responses i (_ # tr) = responses i tr"

fun isLog :: "event \<Rightarrow> bool" where
  "isLog (EvLogPrintf f args) = True"
| "isLog _ = False"

fun isRespond :: "event \<Rightarrow> bool" where
  "isRespond (EvInteractionRespond i r err) = True"
| "isRespond _ = False"

fun isGuildMember :: "event \<Rightarrow> bool" where
  "isGuildMember (EvGuildMember g u res) = True"
| "isGuildMember _ = False"

fun isRoleAdd :: "event \<Rightarrow> bool" where
  "isRoleAdd (EvGuildMemberRoleAdd g u r err) = True"
| "isRoleAdd _ = False"

fun isRoleRemove :: "event \<Rightarrow> bool" where
  "isRoleRemove (EvGuildMemberRoleRemove g u r err) = True"
| "isRoleRemove _ = False"

fun isChannelCreate :: "event \<Rightarrow> bool" where
  "isChannelCreate (EvGuildChannelCreate g n t res) = True"
| "isChannelCreate _ = False"

fun isPermissionSet :: "event \<Rightarrow> bool" where
  "isPermissionSet (EvChannelPermissionSet c t ty a d err) = True"
| "isPermissionSet _ = False"

text \<open>The calls of the session in a trace: everything but the log lines.\<close>

definition calls :: "trace \<Rightarrow> trace" where
  "calls tr = filter (\<lambda>e. \<not> isLog e) tr"

text \<open>
  The condition under which \<open>checkCommandCaller\<close> lets a handler go on: the command
  was called in the Juiceworks guild, by a member who holds the Juiceworks role.
\<close>

definition authorized :: "InteractionCreate \<Rightarrow> bool" where
  "authorized i \<longleftrightarrow>
     GuildID i = JuiceworksGuildId \<and> Member i \<noteq> None
     \<and> JuiceworksRoleId \<in> set (Roles (the (Member i)))"

section \<open>Sessions and interactions to run the handlers on\<close>

text \<open>A platform on which every call succeeds; the target of \<open>add-member\<close> has no role.\<close>

definition quietSession :: Session where
  "quietSession =
     \<lparr>InteractionRespond = (\<lambda>tr i r. None),
      GuildMember = (\<lambda>tr guildID userID. Inr \<lparr>Roles = []\<rparr>),
      GuildMemberRoleAdd = (\<lambda>tr guildID userID roleID. None),
      GuildChannelCreate =
        (\<lambda>tr guildID name ctype. Inr \<lparr>ChannelID' = ''1300000000000000002'', ChannelName = name\<rparr>),
      ChannelPermissionSet = (\<lambda>tr channelID targetID targetType allow deny. None)\<rparr>"

text \<open>
  A platform that refuses every permission overwrite, and every response to an
  interaction that has been responded to already.
\<close>

definition forbiddenSession :: Session where
  "forbiddenSession =
     \<lparr>InteractionRespond =
        (\<lambda>tr i r. if list_ex isRespond tr
                   then Some ''HTTP 400 Bad Request, Interaction has already been acknowledged.''
                   else None),
      GuildMember = (\<lambda>tr guildID userID. Inr \<lparr>Roles = []\<rparr>),
      GuildMemberRoleAdd = (\<lambda>tr guildID userID roleID. None),
      GuildChannelCreate =
        (\<lambda>tr guildID name ctype. Inr \<lparr>ChannelID' = ''1300000000000000002'', ChannelName = name\<rparr>),
      ChannelPermissionSet =
        (\<lambda>tr channelID targetID targetType allow deny. Some ''HTTP 403 Forbidden, Missing Permissions'')\<rparr>"

text \<open>A platform on which the target of \<open>add-member\<close> is a service provider.\<close>

definition providerSession :: Session where
  "providerSession = quietSession\<lparr>GuildMember := (\<lambda>tr guildID userID. Inr \<lparr>Roles = [ServicesRoleId]\<rparr>)\<rparr>"

text \<open>A platform that refuses to create a channel.\<close>

definition fullSession :: Session where
  "fullSession =
     quietSession\<lparr>GuildChannelCreate :=
       (\<lambda>tr guildID name ctype. Inl ''HTTP 400 Bad Request, Maximum number of guild channels reached'')\<rparr>"

text \<open>A platform that refuses to grant a role.\<close>

definition stingySession :: Session where
  "stingySession =
     quietSession\<lparr>GuildMemberRoleAdd := (\<lambda>tr guildID userID roleID. Some ''HTTP 403 Forbidden'')\<rparr>"

definition juiceworksMember :: Member where
  "juiceworksMember = \<lparr>Roles = [''1257000000000000001'', JuiceworksRoleId]\<rparr>"

definition userOption :: ApplicationCommandInteractionDataOption where
  "userOption =
     \<lparr>OptionName = ''user'', OptionType = ApplicationCommandOptionUser,
      OptionValue = ''1290000000000000042''\<rparr>"

definition nameOption :: "string \<Rightarrow> ApplicationCommandInteractionDataOption" where
  "nameOption name =
     \<lparr>OptionName = ''channel-name'', OptionType = ApplicationCommandOptionString,
      OptionValue = name\<rparr>"

text \<open>\<open>add-member\<close> called by a Juiceworks member in a project channel.\<close>

definition addMemberCall :: InteractionCreate where
  "addMemberCall =
     \<lparr>GuildID = JuiceworksGuildId, ChannelID = ''1300000000000000001'',
      Member = Some juiceworksMember,
      ApplicationCommandData = \<lparr>Name = ''add-member'', Options = [userOption]\<rparr>\<rparr>"

text \<open>\<open>make-channel\<close> called by a Juiceworks member with the given name.\<close>

definition makeChannelCall :: "string \<Rightarrow> InteractionCreate" where
  "makeChannelCall name =
     \<lparr>GuildID = JuiceworksGuildId, ChannelID = ''1300000000000000001'',
      Member = Some juiceworksMember,
      ApplicationCommandData = \<lparr>Name = ''make-channel'', Options = [nameOption name]\<rparr>\<rparr>"

text \<open>\<open>make-channel\<close> with two options, and with none.\<close>

definition twoOptionCall :: InteractionCreate where
  "twoOptionCall =
     (makeChannelCall [])\<lparr>ApplicationCommandData :=
        \<lparr>Name = ''make-channel'', Options = [nameOption ''plans'', userOption]\<rparr>\<rparr>"

definition noOptionCall :: InteractionCreate where
  "noOptionCall =
     (makeChannelCall [])\<lparr>ApplicationCommandData := \<lparr>Name = ''make-channel'', Options = []\<rparr>\<rparr>"

text \<open>\<open>add-member\<close> with a string where the user belongs.\<close>

definition wrongOptionCall :: InteractionCreate where
  "wrongOptionCall =
     addMemberCall\<lparr>ApplicationCommandData :=
        \<lparr>Name = ''add-member'', Options = [nameOption ''plans'']\<rparr>\<rparr>"

text \<open>
  \<open>add-member\<close> called in another guild, called by a member without the Juiceworks
  role, and called in the internal channel.
\<close>

definition outsideCall :: InteractionCreate where
  "outsideCall = addMemberCall\<lparr>GuildID := ''1111111111111111111''\<rparr>"

definition guestCall :: InteractionCreate where
  "guestCall = addMemberCall\<lparr>Member := Some \<lparr>Roles = [''1257000000000000001'']\<rparr>\<rparr>"

definition internalCall :: InteractionCreate where
  "internalCall = addMemberCall\<lparr>ChannelID := InternalChannelId\<rparr>"

text \<open>A command the bot has no handler for.\<close>

definition pingCall :: InteractionCreate where
  "pingCall = addMemberCall\<lparr>ApplicationCommandData := \<lparr>Name = ''ping'', Options = []\<rparr>\<rparr>"

text \<open>
  Names with letters outside ASCII: the letter U+00E9 (two bytes in UTF-8) once, and
  51 times.
\<close>

definition eAcute :: string where
  "eAcute = [CHR 0xC3, CHR 0xA9]"

definition eAcute51 :: string where
  "eAcute51 = concat (replicate 51 eAcute)"

text \<open>A role overwrite on a project channel, asked for while handling \<open>addMemberCall\<close>.\<close>

definition sampleSetup :: "Session \<Rightarrow> channelPermissionSetup" where
  "sampleSetup s =
     \<lparr>session = s, channelID = ''1300000000000000001'', targetID = JuiceworksRoleId,
      targetType = PermissionOverwriteTypeRole, allow = PermissionViewChannel, deny = 0,
      interaction = addMemberCall\<rparr>"

section \<open>The paths through the handlers\<close>

lemma hasRole_iff: "hasRole r rs \<longleftrightarrow> r \<in> set rs"
  by (induction rs) auto

text \<open>A response is one call of the session, and one log line if the call fails.\<close>

lemma respond_eq:
  "respond s i c tr =
     tr @ EvInteractionRespond i (ephemeral c) (InteractionRespond s tr i (ephemeral c))
          # logResponseErr (InteractionRespond s tr i (ephemeral c)) []"
  by (simp add: respond_def call_InteractionRespond_def logResponseErr_def Let_def split: option.splits)

lemma checkCommandCaller_authorized:
  "authorized i \<Longrightarrow> checkCommandCaller s i tr = (None, tr)"
  by (auto simp: checkCommandCaller_def authorized_def hasRole_iff)

lemma checkCommandCaller_unauthorized:
  "\<not> authorized i \<Longrightarrow>
   \<exists>err c. checkCommandCaller s i tr = (Some err, respond s i c tr)"
  by (auto simp: checkCommandCaller_def authorized_def hasRole_iff Let_def)

text \<open>
  The paths through \<open>addMember\<close>: every run takes exactly one of them, and its trace
  is the one given.
\<close>

lemma addMember_cases:
  obtains
    (unauthorized) err c where "\<not> authorized i"
      "addMember s i =
         respond s i c []
         @ [EvLogPrintf ''Command caller check failed on addMember: %v'' [ArgErr err]]"
  | (internal) "authorized i" "ChannelID i = InternalChannelId"
      "addMember s i = respond s i ''This command cannot be used in the internal channel.'' []"
  | (badOption) "authorized i" "ChannelID i \<noteq> InternalChannelId"
      "Options (ApplicationCommandData i) = []
       \<or> OptionType (hd (Options (ApplicationCommandData i))) \<noteq> ApplicationCommandOptionUser"
      "addMember s i = respond s i ''This command requires a user.'' []"
  | (fetchFailed) opt rest err where "authorized i" "ChannelID i \<noteq> InternalChannelId"
      "Options (ApplicationCommandData i) = opt # rest"
      "OptionType opt = ApplicationCommandOptionUser"
      "addMember s i =
         respond s i (''Error reading member roles: '' @ err)
           [EvGuildMember JuiceworksGuildId (OptionValue opt) (Inl err),
            EvLogPrintf ''Error reading member roles: %v'' [ArgErr err]]"
  | (grantFailed) opt rest m err where "authorized i" "ChannelID i \<noteq> InternalChannelId"
      "Options (ApplicationCommandData i) = opt # rest"
      "OptionType opt = ApplicationCommandOptionUser"
      "ServicesRoleId \<notin> set (Roles m)"
      "addMember s i =
         respond s i (''Error granting Project Creator role: '' @ err)
           [EvGuildMember JuiceworksGuildId (OptionValue opt) (Inr m),
            EvGuildMemberRoleAdd JuiceworksGuildId (OptionValue opt) ProjectCreatorRoleId (Some err),
            EvLogPrintf ''Error granting Project Creator role: %v'' [ArgErr err]]"
  | (overwriteFailed) opt rest m err where "authorized i" "ChannelID i \<noteq> InternalChannelId"
      "Options (ApplicationCommandData i) = opt # rest"
      "OptionType opt = ApplicationCommandOptionUser"
      "addMember s i =
         respond s i (''Error adding member to channel: '' @ err)
           (respond s i (''Error setting channel permissions: '' @ err)
              (EvGuildMember JuiceworksGuildId (OptionValue opt) (Inr m)
               # (if ServicesRoleId \<in> set (Roles m) then []
                  else [EvGuildMemberRoleAdd JuiceworksGuildId (OptionValue opt)
                          ProjectCreatorRoleId None])
               @ [EvChannelPermissionSet (ChannelID i) ((OptionValue opt)) PermissionOverwriteTypeMember
                   (PermissionViewChannel OR PermissionSendMessages) 0 (Some err)])
            @ [EvLogPrintf ''Error setting channel permissions: %v'' [ArgErr err],
               EvLogPrintf ''Error adding member to channel: %v'' [ArgErr err]])"
  | (added) opt rest m where "authorized i" "ChannelID i \<noteq> InternalChannelId"
      "Options (ApplicationCommandData i) = opt # rest"
      "OptionType opt = ApplicationCommandOptionUser"
      "addMember s i =
         respond s i (''Added '' @ Mention \<lparr>UserID = OptionValue opt\<rparr> @ '' to the channel.'')
           (EvGuildMember JuiceworksGuildId (OptionValue opt) (Inr m)
            # (if ServicesRoleId \<in> set (Roles m) then []
               else [EvGuildMemberRoleAdd JuiceworksGuildId (OptionValue opt)
                       ProjectCreatorRoleId None])
            @ [EvChannelPermissionSet (ChannelID i) ((OptionValue opt)) PermissionOverwriteTypeMember
                   (PermissionViewChannel OR PermissionSendMessages) 0 None,
               EvLogPrintf ''Added %s (%s) to channel %s.''
                 [ArgUser \<lparr>UserID = OptionValue opt\<rparr>,
                  ArgStr (Mention \<lparr>UserID = OptionValue opt\<rparr>), ArgStr (ChannelID i)]])"
proof (cases "authorized i")
  case False
  from checkCommandCaller_unauthorized [OF False, of s "[]"]
  obtain err c where "checkCommandCaller s i [] = (Some err, respond s i c [])" by blast
  then have "addMember s i =
         respond s i c []
         @ [EvLogPrintf ''Command caller check failed on addMember: %v'' [ArgErr err]]"
    by (simp add: addMember_def)
  with False show ?thesis by (rule unauthorized)
next
  case auth: True
  note c = checkCommandCaller_authorized [OF auth, of s "[]"]
  show ?thesis
  proof (cases "ChannelID i = InternalChannelId")
    case True
    then have "addMember s i = respond s i ''This command cannot be used in the internal channel.'' []"
      by (simp add: addMember_def c)
    with auth True show ?thesis by (rule internal)
  next
    case chan: False
    show ?thesis
    proof (cases "Options (ApplicationCommandData i)")
      case Nil
      then have "addMember s i = respond s i ''This command requires a user.'' []"
        using chan by (simp add: addMember_def c)
      with auth chan Nil show ?thesis by (intro badOption) simp_all
    next
      case (Cons opt rest)
      show ?thesis
      proof (cases "OptionType opt = ApplicationCommandOptionUser")
        case False
        then have "addMember s i = respond s i ''This command requires a user.'' []"
          using chan Cons by (simp add: addMember_def c)
        with auth chan Cons False show ?thesis by (intro badOption) simp_all
      next
        case ty: True
        let ?u = "OptionValue opt"
        let ?f = "GuildMember s [] JuiceworksGuildId ?u"
        show ?thesis
        proof (cases ?f)
          case (Inl err)
          then have "addMember s i =
             respond s i (''Error reading member roles: '' @ err)
               [EvGuildMember JuiceworksGuildId ?u (Inl err),
                EvLogPrintf ''Error reading member roles: %v'' [ArgErr err]]"
            using chan Cons ty
            by (simp add: addMember_def c Let_def UserValue_def call_GuildMember_def)
          with auth chan Cons ty show ?thesis by (rule fetchFailed)
        next
          case (Inr m)
          let ?t2 = "[EvGuildMember JuiceworksGuildId ?u (Inr m)]"
          let ?g = "GuildMemberRoleAdd s ?t2 JuiceworksGuildId ?u ProjectCreatorRoleId"
          show ?thesis
          proof (cases "ServicesRoleId \<notin> set (Roles m) \<and> ?g \<noteq> None")
            case True
            then obtain err where g: "?g = Some err" and sp: "ServicesRoleId \<notin> set (Roles m)" by auto
            have "addMember s i =
               respond s i (''Error granting Project Creator role: '' @ err)
                 [EvGuildMember JuiceworksGuildId ?u (Inr m),
                  EvGuildMemberRoleAdd JuiceworksGuildId ?u ProjectCreatorRoleId (Some err),
                  EvLogPrintf ''Error granting Project Creator role: %v'' [ArgErr err]]"
              using chan Cons ty Inr g sp
              by (simp add: addMember_def c Let_def UserValue_def call_GuildMember_def
                    call_GuildMemberRoleAdd_def hasRole_iff)
            with auth chan Cons ty sp show ?thesis by (rule grantFailed)
          next
            case False
            let ?t3 = "?t2 @ (if ServicesRoleId \<in> set (Roles m) then []
                  else [EvGuildMemberRoleAdd JuiceworksGuildId ?u ProjectCreatorRoleId None])"
            let ?p = "ChannelPermissionSet s ?t3 (ChannelID i) ?u PermissionOverwriteTypeMember
                        (PermissionViewChannel OR PermissionSendMessages) 0"
            show ?thesis
            proof (cases ?p)
              case None
              have "addMember s i =
                 respond s i (''Added '' @ Mention \<lparr>UserID = ?u\<rparr> @ '' to the channel.'')
                   (EvGuildMember JuiceworksGuildId ?u (Inr m)
                    # (if ServicesRoleId \<in> set (Roles m) then []
                       else [EvGuildMemberRoleAdd JuiceworksGuildId ?u ProjectCreatorRoleId None])
                    @ [EvChannelPermissionSet (ChannelID i) ?u PermissionOverwriteTypeMember
                   (PermissionViewChannel OR PermissionSendMessages) 0 None,
                       EvLogPrintf ''Added %s (%s) to channel %s.''
                         [ArgUser \<lparr>UserID = ?u\<rparr>,
                          ArgStr (Mention \<lparr>UserID = ?u\<rparr>), ArgStr (ChannelID i)]])"
                using chan Cons ty Inr False None
                by (auto simp add: addMember_def c Let_def UserValue_def call_GuildMember_def
                      call_GuildMemberRoleAdd_def hasRole_iff channelPermissions_def
                      call_ChannelPermissionSet_def)
              with auth chan Cons ty show ?thesis by (rule added)
            next
              case (Some err)
              have "addMember s i =
                 respond s i (''Error adding member to channel: '' @ err)
                   (respond s i (''Error setting channel permissions: '' @ err)
                      (EvGuildMember JuiceworksGuildId ?u (Inr m)
                       # (if ServicesRoleId \<in> set (Roles m) then []
                          else [EvGuildMemberRoleAdd JuiceworksGuildId ?u ProjectCreatorRoleId None])
                       @ [EvChannelPermissionSet (ChannelID i) ?u PermissionOverwriteTypeMember
                   (PermissionViewChannel OR PermissionSendMessages) 0 (Some err)])
                    @ [EvLogPrintf ''Error setting channel permissions: %v'' [ArgErr err],
                       EvLogPrintf ''Error adding member to channel: %v'' [ArgErr err]])"
                using chan Cons ty Inr False Some
                by (auto simp add: addMember_def c Let_def UserValue_def call_GuildMember_def
                      call_GuildMemberRoleAdd_def hasRole_iff channelPermissions_def
                      call_ChannelPermissionSet_def)
              with auth chan Cons ty show ?thesis by (rule overwriteFailed)
            qed
          qed
        qed
      qed
    qed
  qed
qed


text \<open>The paths through \<open>makeChannel\<close>.\<close>

lemma makeChannel_cases:
  obtains
    (unauthorized) err c where "\<not> authorized i"
      "makeChannel caseTable s i =
         respond s i c []
         @ [EvLogPrintf ''Command caller check failed on makeChannel: %v'' [ArgErr err]]"
  | (badOption) "authorized i"
      "Options (ApplicationCommandData i) = []
       \<or> OptionType (hd (Options (ApplicationCommandData i))) \<noteq> ApplicationCommandOptionString"
      "makeChannel caseTable s i = respond s i ''This command requires a channel name.'' []"
  | (badName) opt rest where "authorized i"
      "Options (ApplicationCommandData i) = opt # rest"
      "OptionType opt = ApplicationCommandOptionString"
      "length (normalizeName caseTable (OptionValue opt)) < 2
       \<or> length (normalizeName caseTable (OptionValue opt)) > 100"
      "makeChannel caseTable s i =
         respond s i ''Channel name must be between 2 and 100 characters.'' []"
  | (createFailed) opt rest err where "authorized i"
      "Options (ApplicationCommandData i) = opt # rest"
      "OptionType opt = ApplicationCommandOptionString"
      "2 \<le> length (normalizeName caseTable (OptionValue opt))"
      "length (normalizeName caseTable (OptionValue opt)) \<le> 100"
      "makeChannel caseTable s i =
         respond s i (''Error creating channel: '' @ err)
           [EvGuildChannelCreate JuiceworksGuildId (normalizeName caseTable (OptionValue opt))
              ChannelTypeGuildText (Inl err)]"
  | (firstFailed) opt rest ch err where "authorized i"
      "Options (ApplicationCommandData i) = opt # rest"
      "OptionType opt = ApplicationCommandOptionString"
      "2 \<le> length (normalizeName caseTable (OptionValue opt))"
      "length (normalizeName caseTable (OptionValue opt)) \<le> 100"
      "makeChannel caseTable s i =
         respond s i (''Error setting channel permissions: '' @ err)
           [EvGuildChannelCreate JuiceworksGuildId (normalizeName caseTable (OptionValue opt))
              ChannelTypeGuildText (Inr ch),
            EvChannelPermissionSet (ChannelID' ch) JuiceworksRoleId PermissionOverwriteTypeRole
              (PermissionViewChannel OR PermissionSendMessages) 0 (Some err)]
         @ [EvLogPrintf ''Error setting channel permissions: %v'' [ArgErr err]]"
  | (secondFailed) opt rest ch err where "authorized i"
      "Options (ApplicationCommandData i) = opt # rest"
      "OptionType opt = ApplicationCommandOptionString"
      "2 \<le> length (normalizeName caseTable (OptionValue opt))"
      "length (normalizeName caseTable (OptionValue opt)) \<le> 100"
      "makeChannel caseTable s i =
         respond s i (''Error setting channel permissions: '' @ err)
           [EvGuildChannelCreate JuiceworksGuildId (normalizeName caseTable (OptionValue opt))
              ChannelTypeGuildText (Inr ch),
            EvChannelPermissionSet (ChannelID' ch) JuiceworksRoleId PermissionOverwriteTypeRole
              (PermissionViewChannel OR PermissionSendMessages) 0 None,
            EvChannelPermissionSet (ChannelID' ch) JuiceworksGuildId PermissionOverwriteTypeRole
              0 PermissionViewChannel (Some err)]
         @ [EvLogPrintf ''Error setting channel permissions: %v'' [ArgErr err]]"
  | (created) opt rest ch where "authorized i"
      "Options (ApplicationCommandData i) = opt # rest"
      "OptionType opt = ApplicationCommandOptionString"
      "2 \<le> length (normalizeName caseTable (OptionValue opt))"
      "length (normalizeName caseTable (OptionValue opt)) \<le> 100"
      "makeChannel caseTable s i =
         respond s i (''Created channel: #'' @ ChannelName ch)
           [EvGuildChannelCreate JuiceworksGuildId (normalizeName caseTable (OptionValue opt))
              ChannelTypeGuildText (Inr ch),
            EvChannelPermissionSet (ChannelID' ch) JuiceworksRoleId PermissionOverwriteTypeRole
              (PermissionViewChannel OR PermissionSendMessages) 0 None,
            EvChannelPermissionSet (ChannelID' ch) JuiceworksGuildId PermissionOverwriteTypeRole
              0 PermissionViewChannel None,
            EvLogPrintf ''Created channel: %v'' [ArgChannel ch]]"
proof (cases "authorized i")
  case False
  from checkCommandCaller_unauthorized [OF False, of s "[]"]
  obtain err c where "checkCommandCaller s i [] = (Some err, respond s i c [])" by blast
  then have "makeChannel caseTable s i =
         respond s i c []
         @ [EvLogPrintf ''Command caller check failed on makeChannel: %v'' [ArgErr err]]"
    by (simp add: makeChannel_def)
  with False show ?thesis by (rule unauthorized)
next
  case auth: True
  note c = checkCommandCaller_authorized [OF auth, of s "[]"]
  show ?thesis
  proof (cases "Options (ApplicationCommandData i)")
    case Nil
    then have "makeChannel caseTable s i = respond s i ''This command requires a channel name.'' []"
      by (simp add: makeChannel_def c)
    with auth Nil show ?thesis by (intro badOption) simp_all
  next
    case (Cons opt rest)
    show ?thesis
    proof (cases "OptionType opt = ApplicationCommandOptionString")
      case False
      then have "makeChannel caseTable s i = respond s i ''This command requires a channel name.'' []"
        using Cons by (simp add: makeChannel_def c)
      with auth Cons False show ?thesis by (intro badOption) simp_all
    next
      case ty: True
      let ?n = "normalizeName caseTable (OptionValue opt)"
      show ?thesis
      proof (cases "length ?n < 2 \<or> length ?n > 100")
        case True
        then have "makeChannel caseTable s i =
            respond s i ''Channel name must be between 2 and 100 characters.'' []"
          using Cons ty by (simp add: makeChannel_def c Let_def StringValue_def)
        with auth Cons ty True show ?thesis by (rule badName)
      next
        case False
        then have len: "2 \<le> length ?n" "length ?n \<le> 100" by auto
        let ?c = "GuildChannelCreate s [] JuiceworksGuildId ?n ChannelTypeGuildText"
        show ?thesis
        proof (cases ?c)
          case (Inl err)
          then have "makeChannel caseTable s i =
             respond s i (''Error creating channel: '' @ err)
               [EvGuildChannelCreate JuiceworksGuildId ?n ChannelTypeGuildText (Inl err)]"
            using Cons ty False
            by (simp add: makeChannel_def c Let_def StringValue_def call_GuildChannelCreate_def)
          with auth Cons ty len show ?thesis by (rule createFailed)
        next
          case (Inr ch)
          let ?t2 = "[EvGuildChannelCreate JuiceworksGuildId ?n ChannelTypeGuildText (Inr ch)]"
          let ?p1 = "ChannelPermissionSet s ?t2 (ChannelID' ch) JuiceworksRoleId
                       PermissionOverwriteTypeRole
                       (PermissionViewChannel OR PermissionSendMessages) 0"
          show ?thesis
          proof (cases ?p1)
            case (Some err)
            then have "makeChannel caseTable s i =
               respond s i (''Error setting channel permissions: '' @ err)
                 [EvGuildChannelCreate JuiceworksGuildId ?n ChannelTypeGuildText (Inr ch),
                  EvChannelPermissionSet (ChannelID' ch) JuiceworksRoleId PermissionOverwriteTypeRole
                    (PermissionViewChannel OR PermissionSendMessages) 0 (Some err)]
               @ [EvLogPrintf ''Error setting channel permissions: %v'' [ArgErr err]]"
              using Cons ty False Inr
              by (simp add: makeChannel_def c Let_def StringValue_def call_GuildChannelCreate_def
                    channelPermissions_def call_ChannelPermissionSet_def)
            with auth Cons ty len show ?thesis by (rule firstFailed)
          next
            case None
            let ?t3 = "?t2 @ [EvChannelPermissionSet (ChannelID' ch) JuiceworksRoleId
                    PermissionOverwriteTypeRole
                    (PermissionViewChannel OR PermissionSendMessages) 0 None]"
            let ?p2 = "ChannelPermissionSet s ?t3 (ChannelID' ch) JuiceworksGuildId
                         PermissionOverwriteTypeRole 0 PermissionViewChannel"
            show ?thesis
            proof (cases ?p2)
              case (Some err)
              then have "makeChannel caseTable s i =
                 respond s i (''Error setting channel permissions: '' @ err)
                   [EvGuildChannelCreate JuiceworksGuildId ?n ChannelTypeGuildText (Inr ch),
                    EvChannelPermissionSet (ChannelID' ch) JuiceworksRoleId PermissionOverwriteTypeRole
                      (PermissionViewChannel OR PermissionSendMessages) 0 None,
                    EvChannelPermissionSet (ChannelID' ch) JuiceworksGuildId PermissionOverwriteTypeRole
                      0 PermissionViewChannel (Some err)]
                 @ [EvLogPrintf ''Error setting channel permissions: %v'' [ArgErr err]]"
                using Cons ty False Inr None
                by (simp add: makeChannel_def c Let_def StringValue_def call_GuildChannelCreate_def
                      channelPermissions_def call_ChannelPermissionSet_def)
              with auth Cons ty len show ?thesis by (rule secondFailed)
            next
              case p2: None
              have "makeChannel caseTable s i =
                 respond s i (''Created channel: #'' @ ChannelName ch)
                   [EvGuildChannelCreate JuiceworksGuildId ?n ChannelTypeGuildText (Inr ch),
                    EvChannelPermissionSet (ChannelID' ch) JuiceworksRoleId PermissionOverwriteTypeRole
                      (PermissionViewChannel OR PermissionSendMessages) 0 None,
                    EvChannelPermissionSet (ChannelID' ch) JuiceworksGuildId PermissionOverwriteTypeRole
                      0 PermissionViewChannel None,
                    EvLogPrintf ''Created channel: %v'' [ArgChannel ch]]"
                using Cons ty False Inr None p2
                by (simp add: makeChannel_def c Let_def StringValue_def call_GuildChannelCreate_def
                      channelPermissions_def call_ChannelPermissionSet_def)
              with auth Cons ty len show ?thesis by (rule created)
            qed
          qed
        qed
      qed
    qed
  qed
qed

section \<open>Properties of the handlers\<close>

lemma responses_append: "responses i (a @ b) = responses i a @ responses i b"
  by (induction i a rule: responses.induct) auto

lemma responses_respond: "responses i (respond s i c tr) = responses i tr @ [ephemeral c]"
  by (simp add: respond_eq responses_append logResponseErr_def split: option.splits)

lemma list_ex_respond:
  "(\<And>f a. \<not> P (EvLogPrintf f a)) \<Longrightarrow>
   list_ex P (respond s i c tr) \<longleftrightarrow>
     list_ex P tr \<or> P (EvInteractionRespond i (ephemeral c) (InteractionRespond s tr i (ephemeral c)))"
  by (auto simp: respond_eq logResponseErr_def split: option.splits)

lemma filter_respond:
  "(\<And>f a. \<not> P (EvLogPrintf f a)) \<Longrightarrow> (\<And>j r e. \<not> P (EvInteractionRespond j r e)) \<Longrightarrow>
   filter P (respond s i c tr) = filter P tr"
  by (auto simp: respond_eq logResponseErr_def split: option.splits)

lemma mem_respond:
  "e \<in> set (respond s i c tr) \<longleftrightarrow>
     e \<in> set tr
     \<or> e = EvInteractionRespond i (ephemeral c) (InteractionRespond s tr i (ephemeral c))
     \<or> (\<exists>x. InteractionRespond s tr i (ephemeral c) = Some x
            \<and> e = EvLogPrintf ''Error responding to interaction: %v'' [ArgErr x])"
  by (auto simp: respond_eq logResponseErr_def split: option.splits)

lemma makeChannel_responds_once: "length (responses i (makeChannel caseTable s i)) = 1"
  by (cases rule: makeChannel_cases [of i caseTable s]) (simp_all add: responses_respond responses_append)

lemma addMember_responds_once_or_twice:
  "length (responses i (addMember s i)) = 1 \<or> length (responses i (addMember s i)) = 2"
  by (cases rule: addMember_cases [of i s]) (simp_all add: responses_respond responses_append)

text \<open>
  Claim C1. At most one response is sent for an interaction. \<open>makeChannel\<close> sends exactly
  one on every path (\<open>makeChannel_responds_once\<close>). \<open>addMember\<close> sends two when the
  permission overwrite fails: \<open>channelPermissions\<close> has responded already when the
  handler responds again. On a platform that refuses the overwrite, the run of
  \<open>addMember\<close> sends these two responses to the same interaction.
\<close>

theorem addMember_responds_twice:
  "responses addMemberCall (addMember forbiddenSession addMemberCall) =
     [ephemeral ''Error setting channel permissions: HTTP 403 Forbidden, Missing Permissions'',
      ephemeral ''Error adding member to channel: HTTP 403 Forbidden, Missing Permissions'']"
  by (simp add: addMember_def checkCommandCaller_def hasRole_iff addMemberCall_def juiceworksMember_def
      userOption_def forbiddenSession_def Let_def UserValue_def call_GuildMember_def
      call_GuildMemberRoleAdd_def channelPermissions_def call_ChannelPermissionSet_def
      responses_respond responses_append InternalChannelId_def)

text \<open>
  Claim C9. An interaction whose command name is neither \<open>make-channel\<close> nor
  \<open>add-member\<close> runs no handler: the trace is empty, so no response is sent and the
  session is not called.
\<close>

theorem dispatch_unknown:
  assumes "Name (ApplicationCommandData i) \<noteq> ''make-channel''"
    and "Name (ApplicationCommandData i) \<noteq> ''add-member''"
  shows "dispatch caseTable s i = []"
  using assms by (simp add: dispatch_def commandHandlers_def)

theorem dispatch_unknown_witness:
  "Name (ApplicationCommandData pingCall) = ''ping'' \<and> dispatch (\<lambda>r. r) quietSession pingCall = []"
  using dispatch_unknown [of pingCall "\<lambda>r. r" quietSession]
  by (simp add: pingCall_def)

text \<open>
  Claim C8. \<open>channelPermissions\<close> returns exactly the error of the call
  \<open>ChannelPermissionSet\<close>. When the call succeeds, the call is all it adds to the trace
  (no response, no log line). When the call fails with \<open>err\<close>, it sends one ephemeral
  response with the error text and writes one log line with the error.
\<close>

theorem channelPermissions_contract:
  "fst (channelPermissions cps tr) =
     ChannelPermissionSet (session cps) tr (channelID cps) (targetID cps) (targetType cps)
       (allow cps) (deny cps)
   \<and> (fst (channelPermissions cps tr) = None \<longrightarrow>
        snd (channelPermissions cps tr) =
          tr @ [EvChannelPermissionSet (channelID cps) (targetID cps) (targetType cps)
                  (allow cps) (deny cps) None])
   \<and> (\<forall>err. fst (channelPermissions cps tr) = Some err \<longrightarrow>
        snd (channelPermissions cps tr) =
          respond (session cps) (interaction cps) (''Error setting channel permissions: '' @ err)
            (tr @ [EvChannelPermissionSet (channelID cps) (targetID cps) (targetType cps)
                     (allow cps) (deny cps) (Some err)])
          @ [EvLogPrintf ''Error setting channel permissions: %v'' [ArgErr err]]
        \<and> responses (interaction cps) (snd (channelPermissions cps tr)) =
            responses (interaction cps) tr
            @ [ephemeral (''Error setting channel permissions: '' @ err)])"
  by (cases "ChannelPermissionSet (session cps) tr (channelID cps) (targetID cps) (targetType cps)
       (allow cps) (deny cps)")
     (simp_all add: channelPermissions_def call_ChannelPermissionSet_def Let_def
        responses_respond responses_append)


theorem channelPermissions_contract_witness:
  "fst (channelPermissions (sampleSetup forbiddenSession) []) =
     Some ''HTTP 403 Forbidden, Missing Permissions''
   \<and> responses addMemberCall (snd (channelPermissions (sampleSetup forbiddenSession) [])) =
       [ephemeral ''Error setting channel permissions: HTTP 403 Forbidden, Missing Permissions'']
   \<and> fst (channelPermissions (sampleSetup quietSession) []) = None
   \<and> snd (channelPermissions (sampleSetup quietSession) []) =
       [EvChannelPermissionSet ''1300000000000000001'' JuiceworksRoleId
          PermissionOverwriteTypeRole PermissionViewChannel 0 None]"
proof -
  note refused = channelPermissions_contract [of "sampleSetup forbiddenSession" "[]"]
  note granted = channelPermissions_contract [of "sampleSetup quietSession" "[]"]
  have r: "fst (channelPermissions (sampleSetup forbiddenSession) []) =
             Some ''HTTP 403 Forbidden, Missing Permissions''"
    using refused by (simp add: sampleSetup_def forbiddenSession_def)
  have g: "fst (channelPermissions (sampleSetup quietSession) []) = None"
    using granted by (simp add: sampleSetup_def quietSession_def)
  have i: "interaction (sampleSetup forbiddenSession) = addMemberCall"
    by (simp add: sampleSetup_def)
  from refused r
  have "responses (interaction (sampleSetup forbiddenSession))
          (snd (channelPermissions (sampleSetup forbiddenSession) [])) =
       [ephemeral ''Error setting channel permissions: HTTP 403 Forbidden, Missing Permissions'']"
    by auto
  then have "responses addMemberCall (snd (channelPermissions (sampleSetup forbiddenSession) [])) =
       [ephemeral ''Error setting channel permissions: HTTP 403 Forbidden, Missing Permissions'']"
    by (simp only: i)
  moreover from granted g
  have "snd (channelPermissions (sampleSetup quietSession) []) =
       [EvChannelPermissionSet (channelID (sampleSetup quietSession))
          (targetID (sampleSetup quietSession)) (targetType (sampleSetup quietSession))
          (allow (sampleSetup quietSession)) (deny (sampleSetup quietSession)) None]"
    by auto
  then have "snd (channelPermissions (sampleSetup quietSession) []) =
       [EvChannelPermissionSet ''1300000000000000001'' JuiceworksRoleId
          PermissionOverwriteTypeRole PermissionViewChannel 0 None]"
    by (simp add: sampleSetup_def)
  ultimately show ?thesis using r g by simp
qed

text \<open>
  Claim C7. \<open>add-member\<close> called in the internal channel fetches no member, grants no
  role and sets no permission, whether the caller is authorized or not; it sends one
  response, and for an authorized caller that response is the message about the internal
  channel and nothing else happens.
\<close>

theorem addMember_internal_channel:
  assumes "ChannelID i = InternalChannelId"
  shows "\<not> list_ex isGuildMember (addMember s i)
         \<and> \<not> list_ex isRoleAdd (addMember s i)
         \<and> \<not> list_ex isPermissionSet (addMember s i)
         \<and> length (responses i (addMember s i)) = 1
         \<and> (authorized i \<longrightarrow>
              addMember s i =
                respond s i ''This command cannot be used in the internal channel.'' [])"
  using assms
  by (cases rule: addMember_cases [of i s])
     (simp_all add: list_ex_respond responses_respond responses_append)

theorem addMember_internal_channel_witness:
  "ChannelID internalCall = InternalChannelId
   \<and> authorized internalCall
   \<and> addMember quietSession internalCall =
       [EvInteractionRespond internalCall
          (ephemeral ''This command cannot be used in the internal channel.'') None]
   \<and> ChannelID (internalCall\<lparr>GuildID := ''1111111111111111111''\<rparr>) = InternalChannelId
   \<and> \<not> authorized (internalCall\<lparr>GuildID := ''1111111111111111111''\<rparr>)
   \<and> \<not> list_ex isGuildMember
         (addMember quietSession (internalCall\<lparr>GuildID := ''1111111111111111111''\<rparr>))"
  using addMember_internal_channel [of internalCall quietSession]
    addMember_internal_channel [of "internalCall\<lparr>GuildID := ''1111111111111111111''\<rparr>" quietSession]
  by (simp add: internalCall_def addMemberCall_def authorized_def juiceworksMember_def
        respond_eq quietSession_def logResponseErr_def JuiceworksGuildId_def)

text \<open>
  Claim C6. In a run of \<open>addMember\<close> that fetched the target member \<open>m\<close>: if \<open>m\<close>
  holds the service-provider role, no role is granted and the channel overwrite for the
  target is the only call of the two kinds; otherwise the grant of the project-creator
  role comes first, and the overwrite follows it exactly when the grant succeeded.
\<close>

theorem addMember_role_grant:
  assumes "EvGuildMember g u (Inr m) \<in> set (addMember s i)"
  shows "if ServicesRoleId \<in> set (Roles m)
         then \<exists>p. filter (\<lambda>e. isRoleAdd e \<or> isPermissionSet e) (addMember s i) =
                [EvChannelPermissionSet (ChannelID i) u PermissionOverwriteTypeMember
                   (PermissionViewChannel OR PermissionSendMessages) 0 p]
         else \<exists>gr p. filter (\<lambda>e. isRoleAdd e \<or> isPermissionSet e) (addMember s i) =
                EvGuildMemberRoleAdd JuiceworksGuildId u ProjectCreatorRoleId gr
                # (case gr of
                     Some err \<Rightarrow> []
                   | None \<Rightarrow> [EvChannelPermissionSet (ChannelID i) u PermissionOverwriteTypeMember
                               (PermissionViewChannel OR PermissionSendMessages) 0 p])"
  using assms
  by (cases rule: addMember_cases [of i s])
     (auto simp add: mem_respond filter_respond)

text \<open>
  Claim C10. \<open>addMember\<close> never takes a role back. In a run where the grant succeeded
  and the overwrite failed, the handler answers with the error and the calls it made,
  responses apart, are the fetch, the grant and the failed overwrite: the role stays
  granted.
\<close>

theorem addMember_no_rollback:
  "\<not> list_ex isRoleRemove (addMember s i)
   \<and> (EvGuildMemberRoleAdd g u r None \<in> set (addMember s i)
        \<and> EvChannelPermissionSet c t ty a d (Some err) \<in> set (addMember s i) \<longrightarrow>
        responses i (addMember s i) =
          [ephemeral (''Error setting channel permissions: '' @ err),
           ephemeral (''Error adding member to channel: '' @ err)]
        \<and> (\<exists>m. filter (\<lambda>e. \<not> isLog e \<and> \<not> isRespond e) (addMember s i) =
              [EvGuildMember g u (Inr m), EvGuildMemberRoleAdd g u r None,
               EvChannelPermissionSet c t ty a d (Some err)]))"
  by (cases rule: addMember_cases [of i s])
     (auto simp add: mem_respond filter_respond list_ex_respond responses_respond responses_append
        respond_eq logResponseErr_def split: option.splits)


lemma run_addMember_quiet:
  "addMember quietSession addMemberCall =
     [EvGuildMember JuiceworksGuildId ''1290000000000000042'' (Inr \<lparr>Roles = []\<rparr>),
      EvGuildMemberRoleAdd JuiceworksGuildId ''1290000000000000042'' ProjectCreatorRoleId None,
      EvChannelPermissionSet ''1300000000000000001'' ''1290000000000000042''
        PermissionOverwriteTypeMember (PermissionViewChannel OR PermissionSendMessages) 0 None,
      EvLogPrintf ''Added %s (%s) to channel %s.''
        [ArgUser \<lparr>UserID = ''1290000000000000042''\<rparr>, ArgStr ''<@1290000000000000042>'',
         ArgStr ''1300000000000000001''],
      EvInteractionRespond addMemberCall
        (ephemeral ''Added <@1290000000000000042> to the channel.'') None]"
  by (simp add: addMember_def checkCommandCaller_def hasRole_iff addMemberCall_def
      juiceworksMember_def userOption_def quietSession_def Let_def UserValue_def Mention_def
      call_GuildMember_def call_GuildMemberRoleAdd_def channelPermissions_def
      call_ChannelPermissionSet_def respond_eq logResponseErr_def InternalChannelId_def)

lemma run_addMember_provider:
  "addMember providerSession addMemberCall =
     [EvGuildMember JuiceworksGuildId ''1290000000000000042'' (Inr \<lparr>Roles = [ServicesRoleId]\<rparr>),
      EvChannelPermissionSet ''1300000000000000001'' ''1290000000000000042''
        PermissionOverwriteTypeMember (PermissionViewChannel OR PermissionSendMessages) 0 None,
      EvLogPrintf ''Added %s (%s) to channel %s.''
        [ArgUser \<lparr>UserID = ''1290000000000000042''\<rparr>, ArgStr ''<@1290000000000000042>'',
         ArgStr ''1300000000000000001''],
      EvInteractionRespond addMemberCall
        (ephemeral ''Added <@1290000000000000042> to the channel.'') None]"
  by (simp add: addMember_def checkCommandCaller_def hasRole_iff addMemberCall_def
      juiceworksMember_def userOption_def quietSession_def providerSession_def Let_def
      UserValue_def Mention_def
      call_GuildMember_def call_GuildMemberRoleAdd_def channelPermissions_def
      call_ChannelPermissionSet_def respond_eq logResponseErr_def InternalChannelId_def)

lemma run_addMember_stingy:
  "addMember stingySession addMemberCall =
     [EvGuildMember JuiceworksGuildId ''1290000000000000042'' (Inr \<lparr>Roles = []\<rparr>),
      EvGuildMemberRoleAdd JuiceworksGuildId ''1290000000000000042'' ProjectCreatorRoleId
        (Some ''HTTP 403 Forbidden''),
      EvLogPrintf ''Error granting Project Creator role: %v'' [ArgErr ''HTTP 403 Forbidden''],
      EvInteractionRespond addMemberCall
        (ephemeral ''Error granting Project Creator role: HTTP 403 Forbidden'') None]"
  by (simp add: addMember_def checkCommandCaller_def hasRole_iff addMemberCall_def
      juiceworksMember_def userOption_def quietSession_def stingySession_def Let_def
      UserValue_def Mention_def
      call_GuildMember_def call_GuildMemberRoleAdd_def channelPermissions_def
      call_ChannelPermissionSet_def respond_eq logResponseErr_def InternalChannelId_def)

lemma run_addMember_forbidden:
  "addMember forbiddenSession addMemberCall =
     [EvGuildMember JuiceworksGuildId ''1290000000000000042'' (Inr \<lparr>Roles = []\<rparr>),
      EvGuildMemberRoleAdd JuiceworksGuildId ''1290000000000000042'' ProjectCreatorRoleId None,
      EvChannelPermissionSet ''1300000000000000001'' ''1290000000000000042''
        PermissionOverwriteTypeMember (PermissionViewChannel OR PermissionSendMessages) 0
        (Some ''HTTP 403 Forbidden, Missing Permissions''),
      EvInteractionRespond addMemberCall
        (ephemeral ''Error setting channel permissions: HTTP 403 Forbidden, Missing Permissions'')
        None,
      EvLogPrintf ''Error setting channel permissions: %v''
        [ArgErr ''HTTP 403 Forbidden, Missing Permissions''],
      EvLogPrintf ''Error adding member to channel: %v''
        [ArgErr ''HTTP 403 Forbidden, Missing Permissions''],
      EvInteractionRespond addMemberCall
        (ephemeral ''Error adding member to channel: HTTP 403 Forbidden, Missing Permissions'')
        (Some ''HTTP 400 Bad Request, Interaction has already been acknowledged.''),
      EvLogPrintf ''Error responding to interaction: %v''
        [ArgErr ''HTTP 400 Bad Request, Interaction has already been acknowledged.'']]"
  by (simp add: addMember_def checkCommandCaller_def hasRole_iff addMemberCall_def
      juiceworksMember_def userOption_def forbiddenSession_def Let_def
      UserValue_def Mention_def
      call_GuildMember_def call_GuildMemberRoleAdd_def channelPermissions_def
      call_ChannelPermissionSet_def respond_eq logResponseErr_def InternalChannelId_def)

theorem addMember_role_grant_witness:
  "EvGuildMember JuiceworksGuildId ''1290000000000000042'' (Inr \<lparr>Roles = [ServicesRoleId]\<rparr>)
     \<in> set (addMember providerSession addMemberCall)
   \<and> filter (\<lambda>e. isRoleAdd e \<or> isPermissionSet e) (addMember providerSession addMemberCall) =
       [EvChannelPermissionSet ''1300000000000000001'' ''1290000000000000042''
          PermissionOverwriteTypeMember (PermissionViewChannel OR PermissionSendMessages) 0 None]
   \<and> EvGuildMember JuiceworksGuildId ''1290000000000000042'' (Inr \<lparr>Roles = []\<rparr>)
     \<in> set (addMember stingySession addMemberCall)
   \<and> filter (\<lambda>e. isRoleAdd e \<or> isPermissionSet e) (addMember stingySession addMemberCall) =
       [EvGuildMemberRoleAdd JuiceworksGuildId ''1290000000000000042'' ProjectCreatorRoleId
          (Some ''HTTP 403 Forbidden'')]"
  using addMember_role_grant [of JuiceworksGuildId "''1290000000000000042''"
          "\<lparr>Roles = [ServicesRoleId]\<rparr>" providerSession addMemberCall]
        addMember_role_grant [of JuiceworksGuildId "''1290000000000000042''"
          "\<lparr>Roles = []\<rparr>" stingySession addMemberCall]
  by (simp add: run_addMember_provider run_addMember_stingy)

theorem addMember_no_rollback_witness:
  "EvGuildMemberRoleAdd JuiceworksGuildId ''1290000000000000042'' ProjectCreatorRoleId None
     \<in> set (addMember forbiddenSession addMemberCall)
   \<and> EvChannelPermissionSet ''1300000000000000001'' ''1290000000000000042''
        PermissionOverwriteTypeMember (PermissionViewChannel OR PermissionSendMessages) 0
        (Some ''HTTP 403 Forbidden, Missing Permissions'')
     \<in> set (addMember forbiddenSession addMemberCall)
   \<and> \<not> list_ex isRoleRemove (addMember forbiddenSession addMemberCall)
   \<and> filter (\<lambda>e. \<not> isLog e \<and> \<not> isRespond e) (addMember forbiddenSession addMemberCall) =
       [EvGuildMember JuiceworksGuildId ''1290000000000000042'' (Inr \<lparr>Roles = []\<rparr>),
        EvGuildMemberRoleAdd JuiceworksGuildId ''1290000000000000042'' ProjectCreatorRoleId None,
        EvChannelPermissionSet ''1300000000000000001'' ''1290000000000000042''
          PermissionOverwriteTypeMember (PermissionViewChannel OR PermissionSendMessages) 0
          (Some ''HTTP 403 Forbidden, Missing Permissions'')]"
  using addMember_no_rollback [of forbiddenSession addMemberCall JuiceworksGuildId
          "''1290000000000000042''" ProjectCreatorRoleId "''1300000000000000001''"
          "''1290000000000000042''" PermissionOverwriteTypeMember
          "PermissionViewChannel OR PermissionSendMessages" 0
          "''HTTP 403 Forbidden, Missing Permissions''"]
  by (simp add: run_addMember_forbidden)

lemma checkCommandCaller_outside:
  "GuildID i \<noteq> JuiceworksGuildId \<or> Member i = None \<Longrightarrow>
   checkCommandCaller s i tr =
     (Some ''command was called outside of the Juiceworks Discord server'',
      respond s i ''This command can only be used in the Juiceworks Discord server.'' tr)"
  by (auto simp: checkCommandCaller_def)

lemma checkCommandCaller_nonmember:
  "GuildID i = JuiceworksGuildId \<Longrightarrow> Member i \<noteq> None \<Longrightarrow>
   JuiceworksRoleId \<notin> set (Roles (the (Member i))) \<Longrightarrow>
   checkCommandCaller s i tr =
     (Some ''command was called by a non-Juiceworks member'',
      respond s i ''This command can only be used by Juiceworks members.'' tr)"
  by (auto simp: checkCommandCaller_def hasRole_iff)

lemma calls_respond:
  "calls (respond s i c tr) =
     calls tr @ [EvInteractionRespond i (ephemeral c) (InteractionRespond s tr i (ephemeral c))]"
  by (simp add: respond_eq calls_def logResponseErr_def split: option.splits)

text \<open>
  Claim C4. \<open>checkCommandCaller\<close> succeeds, leaving the trace as it was, exactly when
  the interaction comes from the Juiceworks guild, has a member, and the member's roles
  hold the Juiceworks role. When the guild or the member check fails it responds that
  the command can only be used in the Juiceworks Discord server; when only the role is
  missing it responds that the command can only be used by Juiceworks members. In both
  cases that response is the only call either handler makes.
\<close>

theorem checkCommandCaller_guard:
  "(checkCommandCaller s i tr = (None, tr) \<longleftrightarrow>
      GuildID i = JuiceworksGuildId \<and> Member i \<noteq> None
      \<and> JuiceworksRoleId \<in> set (Roles (the (Member i))))
   \<and> (GuildID i \<noteq> JuiceworksGuildId \<or> Member i = None \<longrightarrow>
        fst (checkCommandCaller s i tr) \<noteq> None
        \<and> snd (checkCommandCaller s i tr) =
            respond s i ''This command can only be used in the Juiceworks Discord server.'' tr
        \<and> calls (addMember s i) =
            [EvInteractionRespond i
               (ephemeral ''This command can only be used in the Juiceworks Discord server.'')
               (InteractionRespond s [] i
                  (ephemeral ''This command can only be used in the Juiceworks Discord server.''))]
        \<and> calls (makeChannel caseTable s i) = calls (addMember s i))
   \<and> (GuildID i = JuiceworksGuildId \<and> Member i \<noteq> None
        \<and> JuiceworksRoleId \<notin> set (Roles (the (Member i))) \<longrightarrow>
        fst (checkCommandCaller s i tr) \<noteq> None
        \<and> snd (checkCommandCaller s i tr) =
            respond s i ''This command can only be used by Juiceworks members.'' tr
        \<and> calls (addMember s i) =
            [EvInteractionRespond i
               (ephemeral ''This command can only be used by Juiceworks members.'')
               (InteractionRespond s [] i
                  (ephemeral ''This command can only be used by Juiceworks members.''))]
        \<and> calls (makeChannel caseTable s i) = calls (addMember s i))"
proof (intro conjI impI)
  show "checkCommandCaller s i tr = (None, tr) \<longleftrightarrow>
      GuildID i = JuiceworksGuildId \<and> Member i \<noteq> None
      \<and> JuiceworksRoleId \<in> set (Roles (the (Member i)))"
    by (auto simp: checkCommandCaller_def hasRole_iff)
next
  assume a: "GuildID i \<noteq> JuiceworksGuildId \<or> Member i = None"
  note c = checkCommandCaller_outside [OF a]
  show "fst (checkCommandCaller s i tr) \<noteq> None" by (simp add: c)
  show "snd (checkCommandCaller s i tr) =
            respond s i ''This command can only be used in the Juiceworks Discord server.'' tr"
    by (simp add: c)
  show ca: "calls (addMember s i) =
            [EvInteractionRespond i
               (ephemeral ''This command can only be used in the Juiceworks Discord server.'')
               (InteractionRespond s [] i
                  (ephemeral ''This command can only be used in the Juiceworks Discord server.''))]"
    by (simp add: addMember_def c calls_respond) (simp add: calls_def respond_eq logResponseErr_def split: option.splits)
  show "calls (makeChannel caseTable s i) = calls (addMember s i)"
    unfolding ca by (simp add: makeChannel_def c) (simp add: calls_def respond_eq logResponseErr_def split: option.splits)
next
  assume a: "GuildID i = JuiceworksGuildId \<and> Member i \<noteq> None
        \<and> JuiceworksRoleId \<notin> set (Roles (the (Member i)))"
  then have c: "checkCommandCaller s i tr =
     (Some ''command was called by a non-Juiceworks member'',
      respond s i ''This command can only be used by Juiceworks members.'' tr)" for tr
    by (simp add: checkCommandCaller_nonmember)
  show "fst (checkCommandCaller s i tr) \<noteq> None" by (simp add: c)
  show "snd (checkCommandCaller s i tr) =
            respond s i ''This command can only be used by Juiceworks members.'' tr"
    by (simp add: c)
  show ca: "calls (addMember s i) =
            [EvInteractionRespond i
               (ephemeral ''This command can only be used by Juiceworks members.'')
               (InteractionRespond s [] i
                  (ephemeral ''This command can only be used by Juiceworks members.''))]"
    by (simp add: addMember_def c) (simp add: calls_def respond_eq logResponseErr_def split: option.splits)
  show "calls (makeChannel caseTable s i) = calls (addMember s i)"
    unfolding ca by (simp add: makeChannel_def c) (simp add: calls_def respond_eq logResponseErr_def split: option.splits)
qed

theorem checkCommandCaller_guard_witness:
  "checkCommandCaller quietSession addMemberCall [] = (None, [])
   \<and> GuildID outsideCall \<noteq> JuiceworksGuildId
   \<and> checkCommandCaller quietSession outsideCall [] \<noteq> (None, [])
   \<and> calls (addMember quietSession outsideCall) =
       [EvInteractionRespond outsideCall
          (ephemeral ''This command can only be used in the Juiceworks Discord server.'') None]
   \<and> calls (makeChannel (\<lambda>r. r) quietSession outsideCall) =
       [EvInteractionRespond outsideCall
          (ephemeral ''This command can only be used in the Juiceworks Discord server.'') None]
   \<and> GuildID guestCall = JuiceworksGuildId
   \<and> Member guestCall = Some \<lparr>Roles = [''1257000000000000001'']\<rparr>
   \<and> calls (addMember quietSession guestCall) =
       [EvInteractionRespond guestCall
          (ephemeral ''This command can only be used by Juiceworks members.'') None]
   \<and> calls (makeChannel (\<lambda>r. r) quietSession guestCall) =
       [EvInteractionRespond guestCall
          (ephemeral ''This command can only be used by Juiceworks members.'') None]"
proof -
  note a = checkCommandCaller_guard [of quietSession addMemberCall "[]" "\<lambda>r. r"]
  note b = checkCommandCaller_guard [of quietSession outsideCall "[]" "\<lambda>r. r"]
  note c = checkCommandCaller_guard [of quietSession guestCall "[]" "\<lambda>r. r"]
  have 1: "GuildID addMemberCall = JuiceworksGuildId \<and> Member addMemberCall \<noteq> None
      \<and> JuiceworksRoleId \<in> set (Roles (the (Member addMemberCall)))"
    by (simp add: addMemberCall_def juiceworksMember_def)
  have 2: "GuildID outsideCall \<noteq> JuiceworksGuildId"
    by (simp add: outsideCall_def addMemberCall_def JuiceworksGuildId_def)
  have 3: "GuildID guestCall = JuiceworksGuildId \<and> Member guestCall = Some \<lparr>Roles = [''1257000000000000001'']\<rparr>
      \<and> JuiceworksRoleId \<notin> set (Roles (the (Member guestCall)))"
    by (simp add: guestCall_def addMemberCall_def JuiceworksRoleId_def)
  have q: "InteractionRespond quietSession tr i r = None" for tr i r
    by (simp add: quietSession_def)
  from a 1 have "checkCommandCaller quietSession addMemberCall [] = (None, [])" by blast
  moreover from b 2 have "checkCommandCaller quietSession outsideCall [] \<noteq> (None, [])" by blast
  moreover from b 2 have "calls (addMember quietSession outsideCall) =
       [EvInteractionRespond outsideCall
          (ephemeral ''This command can only be used in the Juiceworks Discord server.'') None]"
    "calls (makeChannel (\<lambda>r. r) quietSession outsideCall) =
       [EvInteractionRespond outsideCall
          (ephemeral ''This command can only be used in the Juiceworks Discord server.'') None]"
    by (auto simp: q)
  moreover from c 3 have "calls (addMember quietSession guestCall) =
       [EvInteractionRespond guestCall
          (ephemeral ''This command can only be used by Juiceworks members.'') None]"
    "calls (makeChannel (\<lambda>r. r) quietSession guestCall) =
       [EvInteractionRespond guestCall
          (ephemeral ''This command can only be used by Juiceworks members.'') None]"
    by (auto simp: q)
  ultimately show ?thesis using 2 3 by simp
qed

lemma ephemeral_inject: "ephemeral c = ephemeral c' \<longleftrightarrow> c = c'"
  by (simp add: ephemeral_def)

text \<open>
  Claim C2, as the code has it. For an authorized caller, \<open>makeChannel\<close> answers
  "This command requires a channel name." and does nothing else exactly when there is no
  option or the first option is not a string; \<open>addMember\<close>, outside the internal
  channel, answers "This command requires a user." and does nothing else exactly when
  there is no option or the first option is not a user. Only the first option is looked
  at: options after it are ignored. The rejection is the whole trace, so no call of the
  session comes before the validation.
\<close>

theorem option_validation:
  assumes "authorized i"
  shows "(makeChannel caseTable s i = respond s i ''This command requires a channel name.'' []
          \<longleftrightarrow> \<not> (\<exists>opt rest. Options (ApplicationCommandData i) = opt # rest
                  \<and> OptionType opt = ApplicationCommandOptionString))
         \<and> (ChannelID i \<noteq> InternalChannelId \<longrightarrow>
             (addMember s i = respond s i ''This command requires a user.'' []
              \<longleftrightarrow> \<not> (\<exists>opt rest. Options (ApplicationCommandData i) = opt # rest
                      \<and> OptionType opt = ApplicationCommandOptionUser)))"
proof (intro conjI impI)
  show "makeChannel caseTable s i = respond s i ''This command requires a channel name.'' []
          \<longleftrightarrow> \<not> (\<exists>opt rest. Options (ApplicationCommandData i) = opt # rest
                  \<and> OptionType opt = ApplicationCommandOptionString)"
    using assms
    by (cases rule: makeChannel_cases [of i caseTable s])
       (auto simp add: respond_eq ephemeral_inject)
next
  assume "ChannelID i \<noteq> InternalChannelId"
  then show "addMember s i = respond s i ''This command requires a user.'' []
              \<longleftrightarrow> \<not> (\<exists>opt rest. Options (ApplicationCommandData i) = opt # rest
                      \<and> OptionType opt = ApplicationCommandOptionUser)"
    using assms
    by (cases rule: addMember_cases [of i s])
       (auto simp add: respond_eq ephemeral_inject)
qed

lemma authorized_addMemberCall: "authorized addMemberCall"
  by (simp add: authorized_def addMemberCall_def juiceworksMember_def)

lemma authorized_makeChannelCall: "authorized (makeChannelCall name)"
  by (simp add: authorized_def makeChannelCall_def juiceworksMember_def)

theorem option_validation_witness:
  "authorized noOptionCall
   \<and> makeChannel (\<lambda>r. r) quietSession noOptionCall =
       [EvInteractionRespond noOptionCall (ephemeral ''This command requires a channel name.'') None]
   \<and> authorized wrongOptionCall
   \<and> ChannelID wrongOptionCall \<noteq> InternalChannelId
   \<and> addMember quietSession wrongOptionCall =
       [EvInteractionRespond wrongOptionCall (ephemeral ''This command requires a user.'') None]"
proof -
  have a: "authorized noOptionCall"
    by (simp add: authorized_def noOptionCall_def makeChannelCall_def juiceworksMember_def)
  have b: "authorized wrongOptionCall"
    by (simp add: authorized_def wrongOptionCall_def addMemberCall_def juiceworksMember_def)
  have c: "ChannelID wrongOptionCall \<noteq> InternalChannelId"
    by (simp add: wrongOptionCall_def addMemberCall_def InternalChannelId_def)
  have d: "Options (ApplicationCommandData noOptionCall) = []"
    by (simp add: noOptionCall_def)
  have e: "Options (ApplicationCommandData wrongOptionCall) = [nameOption ''plans'']"
    "OptionType (nameOption ''plans'') = ApplicationCommandOptionString"
    by (simp_all add: wrongOptionCall_def nameOption_def)
  have q: "respond quietSession i c [] = [EvInteractionRespond i (ephemeral c) None]" for i c
    by (simp add: respond_eq quietSession_def logResponseErr_def)
  from option_validation [OF a, of "\<lambda>r. r" quietSession] d
  have "makeChannel (\<lambda>r. r) quietSession noOptionCall =
       [EvInteractionRespond noOptionCall (ephemeral ''This command requires a channel name.'') None]"
    by (simp add: q)
  moreover from option_validation [OF b, of "\<lambda>r. r" quietSession] c e
  have "addMember quietSession wrongOptionCall =
       [EvInteractionRespond wrongOptionCall (ephemeral ''This command requires a user.'') None]"
    by (simp add: q)
  ultimately show ?thesis using a b c by simp
qed

lemma run_makeChannel_twoOptions:
  "makeChannel caseTable quietSession twoOptionCall =
     [EvGuildChannelCreate JuiceworksGuildId ''plans'' ChannelTypeGuildText
        (Inr \<lparr>ChannelID' = ''1300000000000000002'', ChannelName = ''plans''\<rparr>),
      EvChannelPermissionSet ''1300000000000000002'' JuiceworksRoleId PermissionOverwriteTypeRole
        (PermissionViewChannel OR PermissionSendMessages) 0 None,
      EvChannelPermissionSet ''1300000000000000002'' JuiceworksGuildId PermissionOverwriteTypeRole
        0 PermissionViewChannel None,
      EvLogPrintf ''Created channel: %v''
        [ArgChannel \<lparr>ChannelID' = ''1300000000000000002'', ChannelName = ''plans''\<rparr>],
      EvInteractionRespond twoOptionCall (ephemeral ''Created channel: #plans'') None]"
  by (simp add: makeChannel_def checkCommandCaller_def hasRole_iff twoOptionCall_def
      makeChannelCall_def juiceworksMember_def nameOption_def userOption_def quietSession_def
      Let_def StringValue_def normalizeName_def TrimSpace_def ToLower_def ReplaceAll_def byte_def
      RuneSelf_def IsSpace_def call_GuildChannelCreate_def channelPermissions_def
      call_ChannelPermissionSet_def respond_eq logResponseErr_def char_of_eq_iff)

text \<open>
  Claim C2 as stated asks for exactly one option. \<open>make-channel\<close> with two options, the
  first a string, is not rejected: the channel is created.
\<close>

theorem makeChannel_two_options:
  "authorized twoOptionCall
   \<and> length (Options (ApplicationCommandData twoOptionCall)) = 2
   \<and> makeChannel (\<lambda>r. r) quietSession twoOptionCall \<noteq>
       respond quietSession twoOptionCall ''This command requires a channel name.'' []
   \<and> list_ex isChannelCreate (makeChannel (\<lambda>r. r) quietSession twoOptionCall)"
  by (simp add: run_makeChannel_twoOptions respond_eq)
     (simp add: authorized_def twoOptionCall_def makeChannelCall_def juiceworksMember_def)

lemma char_of_bits:
  "char_of (n::nat) =
     Char (odd n) (odd (n div 2)) (odd (n div 4)) (odd (n div 8)) (odd (n div 16))
       (odd (n div 32)) (odd (n div 64)) (odd (n div 128))"
  by (simp add: char_of_def bit_iff_odd_drop_bit drop_bit_eq_div)

lemma run_makeChannel_noOption:
  "makeChannel caseTable quietSession noOptionCall =
     [EvInteractionRespond noOptionCall (ephemeral ''This command requires a channel name.'') None]"
  by (simp add: makeChannel_def checkCommandCaller_def hasRole_iff noOptionCall_def
      makeChannelCall_def juiceworksMember_def quietSession_def respond_eq logResponseErr_def)

text \<open>
  Claim C5. A run of \<open>makeChannel\<close> that creates no channel sets no permission, and so
  does a run whose channel creation failed (it answers with the error). After the channel
  \<open>ch\<close> was created the overwrites on \<open>ch\<close> are, in this order, the grant of view and
  send to the Juiceworks role and then the denial of view to the role whose identifier is
  the guild's: the first alone if it failed, both otherwise. The handler answers
  "Created channel: #name" exactly when both succeeded, and with the error of the
  overwrite that failed otherwise.
\<close>

theorem makeChannel_overwrites:
  "(\<not> list_ex isChannelCreate (makeChannel caseTable s i) \<longrightarrow>
      \<not> list_ex isPermissionSet (makeChannel caseTable s i))
   \<and> (EvGuildChannelCreate g n t (Inl err) \<in> set (makeChannel caseTable s i) \<longrightarrow>
        \<not> list_ex isPermissionSet (makeChannel caseTable s i)
        \<and> responses i (makeChannel caseTable s i) = [ephemeral (''Error creating channel: '' @ err)])
   \<and> (EvGuildChannelCreate g n t (Inr ch) \<in> set (makeChannel caseTable s i) \<longrightarrow>
        (\<exists>e. filter isPermissionSet (makeChannel caseTable s i) =
               [EvChannelPermissionSet (ChannelID' ch) JuiceworksRoleId PermissionOverwriteTypeRole
                  (PermissionViewChannel OR PermissionSendMessages) 0 (Some e)]
             \<and> responses i (makeChannel caseTable s i) =
                 [ephemeral (''Error setting channel permissions: '' @ e)])
        \<or> (\<exists>e. filter isPermissionSet (makeChannel caseTable s i) =
               [EvChannelPermissionSet (ChannelID' ch) JuiceworksRoleId PermissionOverwriteTypeRole
                  (PermissionViewChannel OR PermissionSendMessages) 0 None,
                EvChannelPermissionSet (ChannelID' ch) JuiceworksGuildId PermissionOverwriteTypeRole
                  0 PermissionViewChannel (Some e)]
             \<and> responses i (makeChannel caseTable s i) =
                 [ephemeral (''Error setting channel permissions: '' @ e)])
        \<or> (filter isPermissionSet (makeChannel caseTable s i) =
               [EvChannelPermissionSet (ChannelID' ch) JuiceworksRoleId PermissionOverwriteTypeRole
                  (PermissionViewChannel OR PermissionSendMessages) 0 None,
                EvChannelPermissionSet (ChannelID' ch) JuiceworksGuildId PermissionOverwriteTypeRole
                  0 PermissionViewChannel None]
             \<and> responses i (makeChannel caseTable s i) =
                 [ephemeral (''Created channel: #'' @ ChannelName ch)]))"
  by (cases rule: makeChannel_cases [of i caseTable s])
     (auto simp add: mem_respond filter_respond list_ex_respond responses_respond responses_append)

lemma run_makeChannel_quiet:
  "makeChannel caseTable quietSession (makeChannelCall ''  My Project  '') =
     [EvGuildChannelCreate JuiceworksGuildId ''my-project'' ChannelTypeGuildText
        (Inr \<lparr>ChannelID' = ''1300000000000000002'', ChannelName = ''my-project''\<rparr>),
      EvChannelPermissionSet ''1300000000000000002'' JuiceworksRoleId PermissionOverwriteTypeRole
        (PermissionViewChannel OR PermissionSendMessages) 0 None,
      EvChannelPermissionSet ''1300000000000000002'' JuiceworksGuildId PermissionOverwriteTypeRole
        0 PermissionViewChannel None,
      EvLogPrintf ''Created channel: %v''
        [ArgChannel \<lparr>ChannelID' = ''1300000000000000002'', ChannelName = ''my-project''\<rparr>],
      EvInteractionRespond (makeChannelCall ''  My Project  '')
        (ephemeral ''Created channel: #my-project'') None]"
  by (simp add: makeChannel_def checkCommandCaller_def hasRole_iff
      makeChannelCall_def juiceworksMember_def nameOption_def quietSession_def
      Let_def StringValue_def normalizeName_def TrimSpace_def ToLower_def ReplaceAll_def byte_def
      RuneSelf_def IsSpace_def call_GuildChannelCreate_def channelPermissions_def
      call_ChannelPermissionSet_def respond_eq logResponseErr_def char_of_bits)

lemma run_makeChannel_full:
  "makeChannel caseTable fullSession (makeChannelCall ''  My Project  '') =
     [EvGuildChannelCreate JuiceworksGuildId ''my-project'' ChannelTypeGuildText
        (Inl ''HTTP 400 Bad Request, Maximum number of guild channels reached''),
      EvInteractionRespond (makeChannelCall ''  My Project  '')
        (ephemeral
           ''Error creating channel: HTTP 400 Bad Request, Maximum number of guild channels reached'')
        None]"
  by (simp add: makeChannel_def checkCommandCaller_def hasRole_iff
      makeChannelCall_def juiceworksMember_def nameOption_def quietSession_def fullSession_def
      Let_def StringValue_def normalizeName_def TrimSpace_def ToLower_def ReplaceAll_def byte_def
      RuneSelf_def IsSpace_def call_GuildChannelCreate_def channelPermissions_def
      call_ChannelPermissionSet_def respond_eq logResponseErr_def char_of_bits)

lemma run_makeChannel_forbidden:
  "makeChannel caseTable forbiddenSession (makeChannelCall ''  My Project  '') =
     [EvGuildChannelCreate JuiceworksGuildId ''my-project'' ChannelTypeGuildText
        (Inr \<lparr>ChannelID' = ''1300000000000000002'', ChannelName = ''my-project''\<rparr>),
      EvChannelPermissionSet ''1300000000000000002'' JuiceworksRoleId PermissionOverwriteTypeRole
        (PermissionViewChannel OR PermissionSendMessages) 0
        (Some ''HTTP 403 Forbidden, Missing Permissions''),
      EvInteractionRespond (makeChannelCall ''  My Project  '')
        (ephemeral ''Error setting channel permissions: HTTP 403 Forbidden, Missing Permissions'')
        None,
      EvLogPrintf ''Error setting channel permissions: %v''
        [ArgErr ''HTTP 403 Forbidden, Missing Permissions'']]"
  by (simp add: makeChannel_def checkCommandCaller_def hasRole_iff
      makeChannelCall_def juiceworksMember_def nameOption_def forbiddenSession_def
      Let_def StringValue_def normalizeName_def TrimSpace_def ToLower_def ReplaceAll_def byte_def
      RuneSelf_def IsSpace_def call_GuildChannelCreate_def channelPermissions_def
      call_ChannelPermissionSet_def respond_eq logResponseErr_def char_of_bits)

theorem makeChannel_overwrites_witness:
  "filter isPermissionSet (makeChannel (\<lambda>r. r) quietSession (makeChannelCall ''  My Project  '')) =
     [EvChannelPermissionSet ''1300000000000000002'' JuiceworksRoleId PermissionOverwriteTypeRole
        (PermissionViewChannel OR PermissionSendMessages) 0 None,
      EvChannelPermissionSet ''1300000000000000002'' JuiceworksGuildId PermissionOverwriteTypeRole
        0 PermissionViewChannel None]
   \<and> responses (makeChannelCall ''  My Project  '')
        (makeChannel (\<lambda>r. r) quietSession (makeChannelCall ''  My Project  '')) =
       [ephemeral ''Created channel: #my-project'']
   \<and> filter isPermissionSet (makeChannel (\<lambda>r. r) forbiddenSession (makeChannelCall ''  My Project  '')) =
     [EvChannelPermissionSet ''1300000000000000002'' JuiceworksRoleId PermissionOverwriteTypeRole
        (PermissionViewChannel OR PermissionSendMessages) 0
        (Some ''HTTP 403 Forbidden, Missing Permissions'')]
   \<and> EvGuildChannelCreate JuiceworksGuildId ''my-project'' ChannelTypeGuildText
        (Inl ''HTTP 400 Bad Request, Maximum number of guild channels reached'')
       \<in> set (makeChannel (\<lambda>r. r) fullSession (makeChannelCall ''  My Project  ''))
   \<and> \<not> list_ex isPermissionSet (makeChannel (\<lambda>r. r) fullSession (makeChannelCall ''  My Project  ''))
   \<and> \<not> list_ex isChannelCreate (makeChannel (\<lambda>r. r) quietSession noOptionCall)
   \<and> \<not> list_ex isPermissionSet (makeChannel (\<lambda>r. r) quietSession noOptionCall)"
proof -
  let ?ch = "\<lparr>ChannelID' = ''1300000000000000002'', ChannelName = ''my-project''\<rparr>"
  note ok = makeChannel_overwrites [of "\<lambda>r. r" quietSession "makeChannelCall ''  My Project  ''"
      JuiceworksGuildId "''my-project''" ChannelTypeGuildText _ ?ch]
  note refused = makeChannel_overwrites [of "\<lambda>r. r" forbiddenSession
      "makeChannelCall ''  My Project  ''" JuiceworksGuildId "''my-project''" ChannelTypeGuildText _ ?ch]
  note full = makeChannel_overwrites [of "\<lambda>r. r" fullSession "makeChannelCall ''  My Project  ''"
      JuiceworksGuildId "''my-project''" ChannelTypeGuildText
      "''HTTP 400 Bad Request, Maximum number of guild channels reached''"]
  note none = makeChannel_overwrites [of "\<lambda>r. r" quietSession noOptionCall]
  note n = run_makeChannel_noOption [of "\<lambda>r. r"]
  from ok refused full none show ?thesis
    by (simp add: run_makeChannel_quiet run_makeChannel_forbidden run_makeChannel_full n)
qed

text \<open>
  The clean-up of the channel name on the examples of the specification, and the length
  check of \<open>makeChannel\<close>: a name is refused exactly when the cleaned name has fewer than
  2 or more than 100 bytes.
\<close>

lemma normalizeName_examples:
  "normalizeName caseTable ''  My Project  '' = ''my-project''"
  "normalizeName caseTable ''x'' = ''x''"
  "normalizeName caseTable ''  Cool Project!!  '' = ''cool-project!!''"
  "normalizeName caseTable ''A  b'' = ''a--b''"
  by (simp_all add: normalizeName_def TrimSpace_def ToLower_def ReplaceAll_def byte_def
        RuneSelf_def IsSpace_def char_of_bits)

lemma makeChannel_length_check:
  assumes "authorized i" "Options (ApplicationCommandData i) = opt # rest"
    and "OptionType opt = ApplicationCommandOptionString"
  shows "makeChannel caseTable s i =
           respond s i ''Channel name must be between 2 and 100 characters.'' []
         \<longleftrightarrow> \<not> (2 \<le> length (normalizeName caseTable (OptionValue opt))
                \<and> length (normalizeName caseTable (OptionValue opt)) \<le> 100)"
  using assms
  by (cases rule: makeChannel_cases [of i caseTable s])
     (auto simp add: respond_eq ephemeral_inject)

lemma runes_eAcute: "runes (eAcute @ s) = (0xE9, eAcute) # runes s"
  by (simp add: eAcute_def byte_def RuneSelf_def cont_def)

lemma runes_replicate_eAcute:
  "runes (concat (replicate n eAcute)) = replicate n (0xE9, eAcute)"
  by (induction n) (simp_all add: runes_eAcute)

lemma EncodeRune_eAcute: "EncodeRune 0xE9 = eAcute"
  by (simp add: EncodeRune_def eAcute_def char_of_bits)

lemma normalizeName_eAcute:
  assumes "caseTable 0xE9 = 0xE9" "0 < n"
  shows "normalizeName caseTable (concat (replicate n eAcute)) = concat (replicate n eAcute)"
proof -
  let ?s = "concat (replicate n eAcute)"
  have sp: "\<not> IsSpace 0xE9" by (simp add: IsSpace_def)
  have t: "TrimSpace ?s = ?s"
    by (simp add: TrimSpace_def runes_replicate_eAcute sp)
  from \<open>0 < n\<close> obtain k where n: "n = Suc k" by (cases n) auto
  have na: "\<not> list_all (\<lambda>c. byte c < RuneSelf) ?s"
    by (simp add: n eAcute_def byte_def RuneSelf_def)
  have u: "unicodeToLower caseTable 0xE9 = 0xE9"
    using assms(1) by (simp add: unicodeToLower_def RuneSelf_def)
  have l: "ToLower caseTable ?s = ?s"
    by (simp add: ToLower_def na Map_string_def runes_replicate_eAcute u EncodeRune_eAcute)
  have r: "ReplaceAll ?s CHR '' '' CHR ''-'' = ?s"
    by (simp add: ReplaceAll_def map_concat eAcute_def)
  show ?thesis by (simp add: normalizeName_def t l r)
qed

lemma length_replicate_eAcute: "length (concat (replicate n eAcute)) = 2 * n"
  by (induction n) (simp_all add: eAcute_def)

text \<open>
  Claim C3. The name is trimmed, lower-cased and its spaces replaced, in this order, and
  the bounds 2 and 100 are applied to the result (\<open>makeChannel_length_check\<close>). The
  length compared is \<open>len\<close>, the number of bytes, while the claim and the handler's own
  message count characters. With the letter U+00E9, which is its own lower case and
  takes two bytes: a name of 51 such letters has 51 characters and is refused as out of
  range, and a name of one such letter has 1 character and is not refused.
\<close>

theorem makeChannel_counts_bytes:
  assumes "caseTable 0xE9 = 0xE9"
  shows "RuneCountInString (normalizeName caseTable eAcute51) = 51
         \<and> length (normalizeName caseTable eAcute51) = 102
         \<and> makeChannel caseTable s (makeChannelCall eAcute51) =
             respond s (makeChannelCall eAcute51)
               ''Channel name must be between 2 and 100 characters.'' []
         \<and> RuneCountInString (normalizeName caseTable eAcute) = 1
         \<and> length (normalizeName caseTable eAcute) = 2
         \<and> makeChannel caseTable s (makeChannelCall eAcute) \<noteq>
             respond s (makeChannelCall eAcute)
               ''Channel name must be between 2 and 100 characters.'' []"
proof -
  have n51: "normalizeName caseTable eAcute51 = eAcute51"
    unfolding eAcute51_def using assms by (rule normalizeName_eAcute) simp
  have n1: "normalizeName caseTable eAcute = eAcute"
    using normalizeName_eAcute [of caseTable 1] assms by simp
  have c51: "RuneCountInString eAcute51 = 51"
    by (simp add: RuneCountInString_def eAcute51_def runes_replicate_eAcute)
  have l51: "length eAcute51 = 102"
    by (simp add: eAcute51_def length_replicate_eAcute)
  have c1: "RuneCountInString eAcute = 1"
    using runes_replicate_eAcute [of 1] by (simp add: RuneCountInString_def)
  have l1: "length eAcute = 2" by (simp add: eAcute_def)
  have o: "Options (ApplicationCommandData (makeChannelCall name)) = [nameOption name]"
    "OptionType (nameOption name) = ApplicationCommandOptionString"
    "OptionValue (nameOption name) = name" for name
    by (simp_all add: makeChannelCall_def nameOption_def)
  note chk = makeChannel_length_check [OF authorized_makeChannelCall o(1) o(2), unfolded o(3)]
  have "makeChannel caseTable s (makeChannelCall eAcute51) =
             respond s (makeChannelCall eAcute51)
               ''Channel name must be between 2 and 100 characters.'' []"
    by (simp add: chk n51 l51)
  moreover have "makeChannel caseTable s (makeChannelCall eAcute) \<noteq>
             respond s (makeChannelCall eAcute)
               ''Channel name must be between 2 and 100 characters.'' []"
    by (simp add: chk n1 l1)
  ultimately show ?thesis by (simp add: n51 n1 c51 l51 c1 l1)
qed

theorem makeChannel_counts_bytes_witness:
  "RuneCountInString (normalizeName (\<lambda>r. r) eAcute51) = 51
   \<and> makeChannel (\<lambda>r. r) quietSession (makeChannelCall eAcute51) =
       [EvInteractionRespond (makeChannelCall eAcute51)
          (ephemeral ''Channel name must be between 2 and 100 characters.'') None]
   \<and> RuneCountInString (normalizeName (\<lambda>r. r) eAcute) = 1"
  using makeChannel_counts_bytes [of "\<lambda>r. r" quietSession]
  by (simp add: respond_eq quietSession_def logResponseErr_def)

lemma run_makeChannel_eAcute:
  "caseTable 0xE9 = 0xE9 \<Longrightarrow>
   makeChannel caseTable quietSession (makeChannelCall eAcute) =
     [EvGuildChannelCreate JuiceworksGuildId eAcute ChannelTypeGuildText
        (Inr \<lparr>ChannelID' = ''1300000000000000002'', ChannelName = eAcute\<rparr>),
      EvChannelPermissionSet ''1300000000000000002'' JuiceworksRoleId PermissionOverwriteTypeRole
        (PermissionViewChannel OR PermissionSendMessages) 0 None,
      EvChannelPermissionSet ''1300000000000000002'' JuiceworksGuildId PermissionOverwriteTypeRole
        0 PermissionViewChannel None,
      EvLogPrintf ''Created channel: %v''
        [ArgChannel \<lparr>ChannelID' = ''1300000000000000002'', ChannelName = eAcute\<rparr>],
      EvInteractionRespond (makeChannelCall eAcute)
        (ephemeral (''Created channel: #'' @ eAcute)) None]"
  using normalizeName_eAcute [of caseTable 1]
  by (simp add: makeChannel_def checkCommandCaller_def hasRole_iff
      makeChannelCall_def juiceworksMember_def nameOption_def quietSession_def
      Let_def StringValue_def call_GuildChannelCreate_def channelPermissions_def
      call_ChannelPermissionSet_def respond_eq logResponseErr_def)
     (simp add: eAcute_def)

end
